theory Spec2Isabelle
  imports Main "HOL-Library.Sublist"
begin

section \<open>The Terraform operator of hydroform: Create, Status, Delete\<close>

text \<open>
  A shallow embedding of \<^verbatim>\<open>provision/internal/operator/terraform/operator.go\<close>.
  The three methods of the operator are translated statement by statement. What they call
  outside that file (the workspace helpers, the state-file helpers, the Terraform verbs,
  the Gardener bootstrap, the operating system) is either modelled from the specification
  or taken as a parameter: the record \<open>Env\<close> fixes what those collaborators answer
  during one call. Every call to a collaborator is logged, with the standard-error handle
  and the file system it saw, so that ordering and "never invoked" are statements about
  the log.
\<close>

subsection \<open>Data\<close>

text \<open>
  Modelled from the spec: \<^verbatim>\<open>types.ProviderType\<close> is not in operator.go.
  "providerType: enum{e.g. Gardener, Other...}"; the operator names only \<^verbatim>\<open>types.Gardener\<close>.
\<close>

datatype ProviderType = Gardener | OtherProvider string

text \<open>A value of \<^verbatim>\<open>map[string]interface{}\<close>.\<close>

datatype cfgval = VString string | VInt int | VBool bool | VNil

type_synonym Config = "string \<rightharpoonup> cfgval"

text \<open>
  The type assertion \<^verbatim>\<open>cfg[k].(string)\<close>: a missing key reads as the nil interface,
  and the one-result assertion panics on anything that is not a string. \<open>None\<close>
  is the panic.
\<close>

definition assertString :: "cfgval option \<Rightarrow> string option" where
  "assertString v = (case v of Some (VString s) \<Rightarrow> Some s | _ \<Rightarrow> None)"

text \<open>Errors; \<open>Wrap err msg\<close> is \<^verbatim>\<open>errors.Wrap(err, msg)\<close> of a non-nil error.\<close>

datatype error = Err string | Wrap error string

text \<open>
  Modelled from the spec: \<^verbatim>\<open>Options\<close> is not in operator.go. "Options = {verbose: bool,
  persistent: bool, dataDir: path, timeouts: mapping from operation-name to duration}";
  the method \<^verbatim>\<open>DataDir()\<close> reads the data directory.
\<close>

type_synonym Timeouts = "string \<rightharpoonup> nat"

record Options =
  Verbose :: bool
  Persistent :: bool
  DataDir :: string
  Timeouts :: Timeouts

record Terraform =
  ops :: Options

text \<open>
  Modelled from the spec: the state artifact (\<^verbatim>\<open>statefile.File\<close> of the Terraform
  library, not part of this repository). It "reports owned resources"; a state is a list of
  modules, each with the addresses of its resources.
\<close>

record State =
  Modules :: "string list list"

record File =
  State :: State

definition HasResources :: "State \<Rightarrow> bool" where
  "HasResources s = list_ex (\<lambda>m. m \<noteq> []) (Modules s)"

text \<open>Modelled from the spec: \<^verbatim>\<open>types.ClusterInfo\<close>, provider output read after apply.\<close>

datatype ClusterInfo = ClusterInfo string

text \<open>
  Modelled from the spec: \<^verbatim>\<open>types.Phase\<close> and \<^verbatim>\<open>types.ClusterStatus\<close> are not in
  operator.go. "ClusterStatus = {phase: enum{Unknown, Provisioned, ...}}"; the operator uses
  these two phases only.
\<close>

datatype Phase = Unknown | Provisioned

record ClusterStatus =
  Phase :: Phase

subsection \<open>The world outside the operator\<close>

text \<open>What \<^verbatim>\<open>os.Stderr\<close> points to.\<close>

datatype Handle = StdErr | DevNull | NilHandle

text \<open>
  Modelled from the spec: the workspace of an identity is the directory
  \<^verbatim>\<open>dataDir/project/clusterName/providerType\<close>; the path is kept as its components.
\<close>

type_synonym Workspace = "string \<times> string \<times> string \<times> ProviderType"

datatype Stored = Valid File | Unparsable

record FS =
  dirs :: "Workspace set"
  stateFiles :: "Workspace \<rightharpoonup> Stored"

datatype Step =
  ClusterDir | InitGardenerProvider | TfInit | InitClusterFiles | TfApply | TfDestroy
  | StateFromFile | StateToFile | ClusterInfoFromFile | Cleanup

text \<open>
  One logged call: which collaborator, where \<^verbatim>\<open>os.Stderr\<close> pointed, the file system
  the call started from, and the error it returned (\<open>None\<close> for success).
\<close>

datatype Event = Event (step: Step) (stderrAt: Handle) (fsAt: FS) (failure: "error option")

record World =
  fs :: FS
  Stderr :: Handle
  trace :: "Event list"

text \<open>
  The answers of the collaborators during one call: whether each of them fails, and for
  the Terraform verbs and the writer of the input files what they leave on disk (any change
  of the file system is allowed). An operation calls each collaborator at most once, so one
  answer per collaborator describes every run.
\<close>

record Env =
  openDevNull :: "error option"
  mkdirAll :: "error option"
  gardenerInit :: "error option"
  initResult :: "error option"
  initEffect :: "FS \<Rightarrow> FS"
  clusterFilesResult :: "error option"
  clusterFilesEffect :: "FS \<Rightarrow> FS"
  applyResult :: "error option"
  applyEffect :: "FS \<Rightarrow> FS"
  destroyResult :: "error option"
  destroyEffect :: "FS \<Rightarrow> FS"
  writeState :: "error option"
  readClusterInfo :: "FS \<Rightarrow> Workspace \<Rightarrow> ClusterInfo option \<times> error option"
  timeoutOverrides :: "Config \<Rightarrow> Timeouts"

definition logEvent :: "Step \<Rightarrow> error option \<Rightarrow> World \<Rightarrow> World" where
  "logEvent s r w = w\<lparr>trace := trace w @ [Event s (Stderr w) (fs w) r]\<rparr>"

text \<open>
  The events a call added to the log, and their steps: \<open>since xs ys\<close> is what \<open>ys\<close>
  holds after its first \<open>length xs\<close> entries.
\<close>

fun since :: "'a list \<Rightarrow> 'a list \<Rightarrow> 'a list" where
  "since [] ys = ys"
| "since (x # xs) [] = []"
| "since (x # xs) (y # ys) = since xs ys"

definition logSince :: "World \<Rightarrow> World \<Rightarrow> Event list" where
  "logSince w w' = since (trace w) (trace w')"

definition steps :: "Event list \<Rightarrow> Step list" where
  "steps evs = map step evs"

text \<open>The outline of a log: each call with the error it returned.\<close>

definition outline :: "Event list \<Rightarrow> (Step \<times> error option) list" where
  "outline evs = map (\<lambda>ev. (step ev, failure ev)) evs"

subsection \<open>The helpers the operator calls\<close>

text \<open>
  Modelled from the spec: \<^verbatim>\<open>applyTimeouts\<close> is not in operator.go. "Apply any timeout
  overrides found in config into the effective Options"; the configuration is read-only
  to the core.
\<close>

definition applyTimeouts :: "Env \<Rightarrow> Config \<Rightarrow> Timeouts \<Rightarrow> Timeouts" where
  "applyTimeouts env cfg tm = tm ++ timeoutOverrides env cfg"

text \<open>The options of the operator once \<^verbatim>\<open>applyTimeouts(cfg, t.ops.Timeouts)\<close> has run.\<close>

definition withTimeouts :: "Env \<Rightarrow> Config \<Rightarrow> Options \<Rightarrow> Options" where
  "withTimeouts env cfg o' = o'\<lparr>Timeouts := applyTimeouts env cfg (Timeouts o')\<rparr>"

text \<open>
  Modelled from the spec: \<^verbatim>\<open>clusterDir\<close> is not in operator.go. "resolve: deterministic,
  injective function of the triple; creates intermediate directories if absent; fails with
  a filesystem error on permission/path issues."
\<close>

definition clusterDir ::
  "Env \<Rightarrow> string \<Rightarrow> string \<Rightarrow> string \<Rightarrow> ProviderType \<Rightarrow> World \<Rightarrow> (error + Workspace) \<times> World" where
  "clusterDir env dataDir project cluster p w =
     (case mkdirAll env of
        Some err \<Rightarrow> (Inl err, logEvent ClusterDir (Some err) w)
      | None \<Rightarrow>
          (Inr (dataDir, project, cluster, p),
           (logEvent ClusterDir None w)
             \<lparr>fs := (fs w)\<lparr>dirs := insert (dataDir, project, cluster, p) (dirs (fs w))\<rparr>\<rparr>))"

text \<open>
  Modelled from the spec: \<^verbatim>\<open>cleanup\<close> is not in operator.go. "Recursively removes the
  workspace"; it is never fatal and returns nothing to its caller. The model is the removal.
\<close>

definition removeWorkspace :: "Workspace \<Rightarrow> FS \<Rightarrow> FS" where
  "removeWorkspace ws f = f\<lparr>dirs := dirs f - {ws}, stateFiles := (stateFiles f)(ws := None)\<rparr>"

definition cleanup ::
  "string \<Rightarrow> string \<Rightarrow> string \<Rightarrow> ProviderType \<Rightarrow> World \<Rightarrow> World" where
  "cleanup dataDir project cluster p w =
     (logEvent Cleanup None w)\<lparr>fs := removeWorkspace (dataDir, project, cluster, p) (fs w)\<rparr>"

text \<open>
  Modelled from the spec: \<^verbatim>\<open>stateFromFile\<close> is not in operator.go.
  "readFromWorkspace: fails if no artifact file exists or it is unparsable."
\<close>

definition readState :: "FS \<Rightarrow> Workspace \<Rightarrow> error + File" where
  "readState f ws =
     (case stateFiles f ws of
        None \<Rightarrow> Inl (Err ''state file does not exist'')
      | Some Unparsable \<Rightarrow> Inl (Err ''state file cannot be parsed'')
      | Some (Valid sf) \<Rightarrow> Inr sf)"

definition errorOf :: "error + 'a \<Rightarrow> error option" where
  "errorOf r = (case r of Inl err \<Rightarrow> Some err | Inr _ \<Rightarrow> None)"

definition stateFromFile ::
  "string \<Rightarrow> string \<Rightarrow> string \<Rightarrow> ProviderType \<Rightarrow> World \<Rightarrow> (error + File) \<times> World" where
  "stateFromFile dataDir project cluster p w =
     (readState (fs w) (dataDir, project, cluster, p),
      logEvent StateFromFile (errorOf (readState (fs w) (dataDir, project, cluster, p))) w)"

text \<open>
  Modelled from the spec: \<^verbatim>\<open>stateToFile\<close> is not in operator.go.
  "writeToWorkspace: overwrites any existing artifact file."
\<close>

definition stateToFile ::
  "Env \<Rightarrow> File \<Rightarrow> string \<Rightarrow> string \<Rightarrow> string \<Rightarrow> ProviderType \<Rightarrow> World \<Rightarrow> error option \<times> World" where
  "stateToFile env sf dataDir project cluster p w =
     (case writeState env of
        Some err \<Rightarrow> (Some err, logEvent StateToFile (Some err) w)
      | None \<Rightarrow>
          (None,
           (logEvent StateToFile None w)
             \<lparr>fs := (fs w)\<lparr>stateFiles := (stateFiles (fs w))((dataDir, project, cluster, p) \<mapsto> Valid sf)\<rparr>\<rparr>))"

text \<open>
  Modelled from the spec: \<^verbatim>\<open>clusterInfoFromFile\<close> is not in operator.go.
  "readClusterInfo: parses engine output files written into the Workspace after a
  successful apply." It returns Go's pair of a pointer and an error.
\<close>

definition clusterInfoFromFile ::
  "Env \<Rightarrow> string \<Rightarrow> string \<Rightarrow> string \<Rightarrow> ProviderType \<Rightarrow> World
     \<Rightarrow> (ClusterInfo option \<times> error option) \<times> World" where
  "clusterInfoFromFile env dataDir project cluster p w =
     (readClusterInfo env (fs w) (dataDir, project, cluster, p),
      logEvent ClusterInfoFromFile (snd (readClusterInfo env (fs w) (dataDir, project, cluster, p))) w)"

text \<open>
  Modelled from the spec: \<^verbatim>\<open>initGardenerProvider\<close>, the Provider Bootstrap Hook, is not
  in operator.go. "prepare(providerType) -> error": the environment says whether it fails.
\<close>

definition initGardenerProvider :: "Env \<Rightarrow> World \<Rightarrow> error option \<times> World" where
  "initGardenerProvider env w = (gardenerInit env, logEvent InitGardenerProvider (gardenerInit env) w)"

text \<open>
  Modelled from the spec: the engine adapter (\<^verbatim>\<open>tfInit\<close>, \<^verbatim>\<open>tfApply\<close>,
  \<^verbatim>\<open>tfDestroy\<close>) and the writer of the input files (\<^verbatim>\<open>initClusterFiles\<close>) are not in
  operator.go. "init, apply, destroy(options, providerType, config, workspacePath) -> error",
  "materializeConfig(dataDir, providerType, config) -> error": the environment says what they
  return and what they leave on disk.
\<close>

definition tfInit ::
  "Env \<Rightarrow> Options \<Rightarrow> ProviderType \<Rightarrow> Config \<Rightarrow> Workspace \<Rightarrow> World \<Rightarrow> error option \<times> World" where
  "tfInit env o' p cfg dir w =
     (initResult env, (logEvent TfInit (initResult env) w)\<lparr>fs := initEffect env (fs w)\<rparr>)"

definition initClusterFiles ::
  "Env \<Rightarrow> string \<Rightarrow> ProviderType \<Rightarrow> Config \<Rightarrow> World \<Rightarrow> error option \<times> World" where
  "initClusterFiles env dataDir p cfg w =
     (clusterFilesResult env,
      (logEvent InitClusterFiles (clusterFilesResult env) w)\<lparr>fs := clusterFilesEffect env (fs w)\<rparr>)"

definition tfApply ::
  "Env \<Rightarrow> Options \<Rightarrow> ProviderType \<Rightarrow> Config \<Rightarrow> Workspace \<Rightarrow> World \<Rightarrow> error option \<times> World" where
  "tfApply env o' p cfg dir w =
     (applyResult env, (logEvent TfApply (applyResult env) w)\<lparr>fs := applyEffect env (fs w)\<rparr>)"

definition tfDestroy ::
  "Env \<Rightarrow> Options \<Rightarrow> ProviderType \<Rightarrow> Config \<Rightarrow> Workspace \<Rightarrow> World \<Rightarrow> error option \<times> World" where
  "tfDestroy env o' p cfg dir w =
     (destroyResult env, (logEvent TfDestroy (destroyResult env) w)\<lparr>fs := destroyEffect env (fs w)\<rparr>)"

subsection \<open>The operator\<close>

text \<open>How a Go call ends: it returns its results, or it panics.\<close>

datatype 'a exit = Return 'a | Panic

text \<open>
  \<^verbatim>\<open>Create\<close>, lines 53 to 75: everything after the two \<^verbatim>\<open>defer\<close> statements. The
  configuration is not written between the assertions of line 53 and those of line 75, so
  the strings asserted first are the ones used at the end.
\<close>

definition Create_steps ::
  "Env \<Rightarrow> Options \<Rightarrow> ProviderType \<Rightarrow> Config \<Rightarrow> World
     \<Rightarrow> (ClusterInfo option \<times> error option) exit \<times> World" where
  "Create_steps env o' p cfg w =
     (case assertString (cfg ''project'') of None \<Rightarrow> (Panic, w) | Some project \<Rightarrow>
      (case assertString (cfg ''cluster_name'') of None \<Rightarrow> (Panic, w) | Some cluster \<Rightarrow>
      (case clusterDir env (DataDir o') project cluster p w of
        (Inl err, w1) \<Rightarrow> (Return (None, Some err), w1)
      | (Inr dir, w1) \<Rightarrow>
      (case (if p = Gardener then initGardenerProvider env w1 else (None, w1)) of
        (Some err, w2) \<Rightarrow>
          (Return (None, Some (Wrap err ''could not initialize the gardener provider'')), w2)
      | (None, w2) \<Rightarrow>
      (case tfInit env o' p cfg dir w2 of
        (Some err, w3) \<Rightarrow> (Return (None, Some err), w3)
      | (None, w3) \<Rightarrow>
      (case initClusterFiles env (DataDir o') p cfg w3 of
        (Some err, w4) \<Rightarrow> (Return (None, Some (Wrap err ''Could not initialize cluster data'')), w4)
      | (None, w4) \<Rightarrow>
      (case tfApply env o' p cfg dir w4 of
        (Some err, w5) \<Rightarrow> (Return (None, Some err), w5)
      | (None, w5) \<Rightarrow>
      (case clusterInfoFromFile env (DataDir o') project cluster p w5 of
        (r, w6) \<Rightarrow> (Return r, w6)))))))))"

text \<open>
  \<^verbatim>\<open>Create\<close>, lines 48 to 51 around the rest: the arguments of the deferred
  \<^verbatim>\<open>cleanup\<close> are evaluated at the \<^verbatim>\<open>defer\<close> statement (a failed assertion panics
  there, before anything is registered); the call itself runs when the function ends,
  by return or by panic.
\<close>

definition Create_deferred ::
  "Env \<Rightarrow> Options \<Rightarrow> ProviderType \<Rightarrow> Config \<Rightarrow> World
     \<Rightarrow> (ClusterInfo option \<times> error option) exit \<times> World" where
  "Create_deferred env o' p cfg w =
     (if \<not> Persistent o' then
        (case assertString (cfg ''project'') of None \<Rightarrow> (Panic, w) | Some project \<Rightarrow>
         case assertString (cfg ''cluster_name'') of None \<Rightarrow> (Panic, w) | Some cluster \<Rightarrow>
         case Create_steps env o' p cfg w of
           (r, w') \<Rightarrow> (r, cleanup (DataDir o') project cluster p w'))
      else Create_steps env o' p cfg w)"

text \<open>
  \<^verbatim>\<open>Create\<close>, from line 34: the timeouts, then the redirection of \<^verbatim>\<open>os.Stderr\<close>. The
  assignment \<^verbatim>\<open>os.Stderr, err = os.Open(os.DevNull)\<close> stores the nil file when the open
  fails, and the function returns before the restoring \<^verbatim>\<open>defer\<close> is registered.
\<close>

definition Create ::
  "Env \<Rightarrow> Terraform \<Rightarrow> ProviderType \<Rightarrow> Config \<Rightarrow> World
     \<Rightarrow> (ClusterInfo option \<times> error option) exit \<times> World" where
  "Create env t p cfg w =
     (let o' = withTimeouts env cfg (ops t) in
      if \<not> Verbose o' then
        (case openDevNull env of
           Some err \<Rightarrow> (Return (None, Some err), w\<lparr>Stderr := NilHandle\<rparr>)
         | None \<Rightarrow>
             (case Create_deferred env o' p cfg (w\<lparr>Stderr := DevNull\<rparr>) of
                (r, w') \<Rightarrow> (r, w'\<lparr>Stderr := Stderr w\<rparr>)))
      else Create_deferred env o' p cfg w)"

text \<open>\<^verbatim>\<open>Status\<close>, lines 79 to 100. The status pointer it returns is never nil.\<close>

definition Status ::
  "Env \<Rightarrow> Terraform \<Rightarrow> File option \<Rightarrow> ProviderType \<Rightarrow> Config \<Rightarrow> World
     \<Rightarrow> (ClusterStatus option \<times> error option) exit \<times> World" where
  "Status env t sf p cfg w =
     (let o' = withTimeouts env cfg (ops t);
          cs = \<lparr>Phase = Unknown\<rparr> in
      case sf of
        None \<Rightarrow>
          (case assertString (cfg ''project'') of None \<Rightarrow> (Panic, w) | Some project \<Rightarrow>
           case assertString (cfg ''cluster_name'') of None \<Rightarrow> (Panic, w) | Some cluster \<Rightarrow>
           case stateFromFile (DataDir o') project cluster p w of
             (Inl err, w1) \<Rightarrow>
               (Return (Some cs, Some (Wrap err ''no state provided, attempted to load from file'')), w1)
           | (Inr f, w1) \<Rightarrow>
               (Return (Some (if HasResources (State f) then cs\<lparr>Phase := Provisioned\<rparr> else cs), None), w1))
      | Some f \<Rightarrow>
          (Return (Some (if HasResources (State f) then cs\<lparr>Phase := Provisioned\<rparr> else cs), None), w))"

text \<open>\<^verbatim>\<open>Delete\<close>, lines 121 to 156: everything after the two \<^verbatim>\<open>defer\<close> statements.\<close>

definition Delete_steps ::
  "Env \<Rightarrow> Options \<Rightarrow> File option \<Rightarrow> ProviderType \<Rightarrow> Config \<Rightarrow> World \<Rightarrow> error option exit \<times> World" where
  "Delete_steps env o' sf p cfg w =
     (case assertString (cfg ''project'') of None \<Rightarrow> (Panic, w) | Some project \<Rightarrow>
      (case assertString (cfg ''cluster_name'') of None \<Rightarrow> (Panic, w) | Some cluster \<Rightarrow>
      (case clusterDir env (DataDir o') project cluster p w of
        (Inl err, w1) \<Rightarrow> (Return (Some err), w1)
      | (Inr dir, w1) \<Rightarrow>
      (case (if p = Gardener then initGardenerProvider env w1 else (None, w1)) of
        (Some err, w2) \<Rightarrow>
          (Return (Some (Wrap err ''could not initialize the gardener provider'')), w2)
      | (None, w2) \<Rightarrow>
      (case tfInit env o' p cfg dir w2 of
        (Some err, w3) \<Rightarrow> (Return (Some err), w3)
      | (None, w3) \<Rightarrow>
      (case initClusterFiles env (DataDir o') p cfg w3 of
        (Some err, w4) \<Rightarrow> (Return (Some (Wrap err ''Could not initialize cluster data'')), w4)
      | (None, w4) \<Rightarrow>
      (case (case sf of
              None \<Rightarrow>
                (case stateFromFile (DataDir o') project cluster p w4 of
                   (Inl err, w5) \<Rightarrow>
                     (Some (Wrap err ''no state provided, attempted to load from file''), w5)
                 | (Inr _, w5) \<Rightarrow> (None, w5))
            | Some f \<Rightarrow>
                (case stateToFile env f (DataDir o') project cluster p w4 of
                   (Some err, w5) \<Rightarrow> (Some (Wrap err ''could not store state into file''), w5)
                 | (None, w5) \<Rightarrow> (None, w5))) of
        (Some err, w5) \<Rightarrow> (Return (Some err), w5)
      | (None, w5) \<Rightarrow>
      (case tfDestroy env o' p cfg dir w5 of
        (Some err, w6) \<Rightarrow> (Return (Some err), w6)
      | (None, w6) \<Rightarrow> (Return None, w6)))))))))"

text \<open>\<^verbatim>\<open>Delete\<close>, lines 116 to 119 around the rest: the deferred \<^verbatim>\<open>cleanup\<close>.\<close>

definition Delete_deferred ::
  "Env \<Rightarrow> Options \<Rightarrow> File option \<Rightarrow> ProviderType \<Rightarrow> Config \<Rightarrow> World \<Rightarrow> error option exit \<times> World" where
  "Delete_deferred env o' sf p cfg w =
     (if \<not> Persistent o' then
        (case assertString (cfg ''project'') of None \<Rightarrow> (Panic, w) | Some project \<Rightarrow>
         case assertString (cfg ''cluster_name'') of None \<Rightarrow> (Panic, w) | Some cluster \<Rightarrow>
         case Delete_steps env o' sf p cfg w of
           (r, w') \<Rightarrow> (r, cleanup (DataDir o') project cluster p w'))
      else Delete_steps env o' sf p cfg w)"

text \<open>
  \<^verbatim>\<open>Delete\<close>, from line 104: the timeouts, then the redirection of \<^verbatim>\<open>os.Stderr\<close>, which
  here is not guarded by \<^verbatim>\<open>Verbose\<close>.
\<close>

definition Delete ::
  "Env \<Rightarrow> Terraform \<Rightarrow> File option \<Rightarrow> ProviderType \<Rightarrow> Config \<Rightarrow> World \<Rightarrow> error option exit \<times> World" where
  "Delete env t sf p cfg w =
     (let o' = withTimeouts env cfg (ops t) in
      case openDevNull env of
        Some err \<Rightarrow> (Return (Some err), w\<lparr>Stderr := NilHandle\<rparr>)
      | None \<Rightarrow>
          (case Delete_deferred env o' sf p cfg (w\<lparr>Stderr := DevNull\<rparr>) of
             (r, w') \<Rightarrow> (r, w'\<lparr>Stderr := Stderr w\<rparr>)))"

subsection \<open>Vocabulary of the statements\<close>

text \<open>The log without the deferred \<^verbatim>\<open>cleanup\<close>.\<close>

definition mainLog :: "Event list \<Rightarrow> Event list" where
  "mainLog evs = filter (\<lambda>ev. step ev \<noteq> Cleanup) evs"

text \<open>The order of the calls of \<^verbatim>\<open>Create\<close>, lines 53 to 75.\<close>

definition createOrder :: "ProviderType \<Rightarrow> Step list" where
  "createOrder p =
     [ClusterDir] @ (if p = Gardener then [InitGardenerProvider] else [])
       @ [TfInit, InitClusterFiles, TfApply, ClusterInfoFromFile]"

text \<open>The error \<^verbatim>\<open>Create\<close> and \<^verbatim>\<open>Delete\<close> return when a call before the state handling fails.\<close>

definition returnedError :: "Step \<Rightarrow> error \<Rightarrow> error" where
  "returnedError s e =
     (if s = InitGardenerProvider then Wrap e ''could not initialize the gardener provider''
      else if s = InitClusterFiles then Wrap e ''Could not initialize cluster data''
      else e)"

text \<open>
  The world in which the calls of an operation run: \<^verbatim>\<open>os.Stderr\<close> points to the null
  device when the operation redirected it.
\<close>

definition entry :: "bool \<Rightarrow> World \<Rightarrow> World" where
  "entry suppress w = (if suppress then w\<lparr>Stderr := DevNull\<rparr> else w)"

text \<open>
  The calls \<^verbatim>\<open>Create\<close> and \<^verbatim>\<open>Delete\<close> make first, and what the environment says
  about them: workspace resolution, provider bootstrap (Gardener only), engine init, config
  materialization. \<open>setupSucceeds\<close> says that none of them fails, \<open>setupOutline\<close> is
  what they leave in the log, \<open>fsAfterSetup\<close> the file system they leave.
\<close>

definition setupSucceeds :: "Env \<Rightarrow> ProviderType \<Rightarrow> bool" where
  "setupSucceeds env p =
     (mkdirAll env = None \<and> (p = Gardener \<longrightarrow> gardenerInit env = None)
      \<and> initResult env = None \<and> clusterFilesResult env = None)"

definition bootOutline :: "ProviderType \<Rightarrow> (Step \<times> error option) list" where
  "bootOutline p = (if p = Gardener then [(InitGardenerProvider, None)] else [])"

definition setupOutline :: "ProviderType \<Rightarrow> (Step \<times> error option) list" where
  "setupOutline p = [(ClusterDir, None)] @ bootOutline p @ [(TfInit, None), (InitClusterFiles, None)]"

definition fsAfterSetup :: "Env \<Rightarrow> Workspace \<Rightarrow> FS \<Rightarrow> FS" where
  "fsAfterSetup env ws f = clusterFilesEffect env (initEffect env (f\<lparr>dirs := insert ws (dirs f)\<rparr>))"

text \<open>What the deferred \<^verbatim>\<open>cleanup\<close> leaves in the log.\<close>

definition cleanupOutline :: "Options \<Rightarrow> (Step \<times> error option) list" where
  "cleanupOutline o' = (if Persistent o' then [] else [(Cleanup, None)])"

subsection \<open>Concrete inputs\<close>

definition cfg0 :: Config where
  "cfg0 = [''project'' \<mapsto> VString ''p1'', ''cluster_name'' \<mapsto> VString ''c1'']"

definition emptyWorld :: World where
  "emptyWorld = \<lparr>fs = \<lparr>dirs = {}, stateFiles = Map.empty\<rparr>, Stderr = StdErr, trace = []\<rparr>"

definition okEnv :: Env where
  "okEnv = \<lparr>openDevNull = None, mkdirAll = None, gardenerInit = None,
     initResult = None, initEffect = (\<lambda>f. f),
     clusterFilesResult = None, clusterFilesEffect = (\<lambda>f. f),
     applyResult = None, applyEffect = (\<lambda>f. f),
     destroyResult = None, destroyEffect = (\<lambda>f. f),
     writeState = None,
     readClusterInfo = (\<lambda>f ws. (Some (ClusterInfo ''https://c1.p1.example''), None)),
     timeoutOverrides = (\<lambda>c. Map.empty)\<rparr>"

definition applyFails :: Env where
  "applyFails = okEnv\<lparr>applyResult := Some (Err ''timeout'')\<rparr>"

definition bootstrapFails :: Env where
  "bootstrapFails = okEnv\<lparr>gardenerInit := Some (Err ''no credentials'')\<rparr>"

definition openFails :: Env where
  "openFails = okEnv\<lparr>openDevNull := Some (Err ''too many open files'')\<rparr>"

definition readerBoth :: Env where
  "readerBoth = okEnv\<lparr>readClusterInfo :=
     (\<lambda>f ws. (Some (ClusterInfo ''https://c1.p1.example''), Some (Err ''output is incomplete'')))\<rparr>"

definition storeFails :: Env where
  "storeFails = okEnv\<lparr>writeState := Some (Err ''disk full'')\<rparr>"

definition state1 :: File where
  "state1 = \<lparr>State = \<lparr>Modules = [[''google_container_cluster.c1'']]\<rparr>\<rparr>"

definition state0 :: File where
  "state0 = \<lparr>State = \<lparr>Modules = [[]]\<rparr>\<rparr>"

text \<open>A world in which the workspace of \<open>cfg0\<close> is on disk, with a state file.\<close>

definition usedWorld :: World where
  "usedWorld =
     \<lparr>fs = \<lparr>dirs = {(''data'', ''p1'', ''c1'', Gardener)},
             stateFiles = [(''data'', ''p1'', ''c1'', Gardener) \<mapsto> Valid state1]\<rparr>,
      Stderr = StdErr, trace = []\<rparr>"

definition operator :: "bool \<Rightarrow> bool \<Rightarrow> Terraform" where
  "operator verbose persistent =
     \<lparr>ops = \<lparr>Verbose = verbose, Persistent = persistent, DataDir = ''data'', Timeouts = Map.empty\<rparr>\<rparr>"

section \<open>Properties\<close>

subsection \<open>The helpers\<close>

lemmas eval_defs = Create_def Create_deferred_def Create_steps_def Delete_def Delete_deferred_def
  Delete_steps_def Status_def clusterDir_def cleanup_def stateFromFile_def stateToFile_def
  readState_def errorOf_def clusterInfoFromFile_def initGardenerProvider_def tfInit_def
  initClusterFiles_def tfApply_def tfDestroy_def logEvent_def removeWorkspace_def
  applyTimeouts_def withTimeouts_def assertString_def logSince_def steps_def outline_def mainLog_def
  returnedError_def cfg0_def emptyWorld_def okEnv_def applyFails_def bootstrapFails_def
  openFails_def storeFails_def readerBoth_def setupSucceeds_def bootOutline_def setupOutline_def
  fsAfterSetup_def cleanupOutline_def state1_def state0_def usedWorld_def operator_def HasResources_def
  Let_def

lemma assertString_VString [simp]: "assertString (Some (VString x)) = Some x"
  by (simp add: assertString_def)

lemma assertString_None: "(assertString v = None) = (\<forall>x. v \<noteq> Some (VString x))"
  by (auto simp: assertString_def split: option.split cfgval.split)

lemma logEvent_sel [simp]:
  "trace (logEvent s r w) = trace w @ [Event s (Stderr w) (fs w) r]"
  "Stderr (logEvent s r w) = Stderr w"
  "fs (logEvent s r w) = fs w"
  by (simp_all add: logEvent_def)

lemma clusterDir_sel [simp]:
  "fst (clusterDir env d pr cl p w) = (case mkdirAll env of Some e \<Rightarrow> Inl e | None \<Rightarrow> Inr (d, pr, cl, p))"
  "trace (snd (clusterDir env d pr cl p w)) = trace w @ [Event ClusterDir (Stderr w) (fs w) (mkdirAll env)]"
  "Stderr (snd (clusterDir env d pr cl p w)) = Stderr w"
  "fs (snd (clusterDir env d pr cl p w)) =
     (case mkdirAll env of Some e \<Rightarrow> fs w | None \<Rightarrow> (fs w)\<lparr>dirs := insert (d, pr, cl, p) (dirs (fs w))\<rparr>)"
  by (simp_all add: clusterDir_def split: option.split)

lemma initGardenerProvider_sel [simp]:
  "fst (initGardenerProvider env w) = gardenerInit env"
  "trace (snd (initGardenerProvider env w)) = trace w @ [Event InitGardenerProvider (Stderr w) (fs w) (gardenerInit env)]"
  "Stderr (snd (initGardenerProvider env w)) = Stderr w"
  "fs (snd (initGardenerProvider env w)) = fs w"
  by (simp_all add: initGardenerProvider_def)

lemma tfInit_sel [simp]:
  "fst (tfInit env o' p cfg dir w) = initResult env"
  "trace (snd (tfInit env o' p cfg dir w)) = trace w @ [Event TfInit (Stderr w) (fs w) (initResult env)]"
  "Stderr (snd (tfInit env o' p cfg dir w)) = Stderr w"
  "fs (snd (tfInit env o' p cfg dir w)) = initEffect env (fs w)"
  by (simp_all add: tfInit_def)

lemma initClusterFiles_sel [simp]:
  "fst (initClusterFiles env d p cfg w) = clusterFilesResult env"
  "trace (snd (initClusterFiles env d p cfg w)) = trace w @ [Event InitClusterFiles (Stderr w) (fs w) (clusterFilesResult env)]"
  "Stderr (snd (initClusterFiles env d p cfg w)) = Stderr w"
  "fs (snd (initClusterFiles env d p cfg w)) = clusterFilesEffect env (fs w)"
  by (simp_all add: initClusterFiles_def)

lemma tfApply_sel [simp]:
  "fst (tfApply env o' p cfg dir w) = applyResult env"
  "trace (snd (tfApply env o' p cfg dir w)) = trace w @ [Event TfApply (Stderr w) (fs w) (applyResult env)]"
  "Stderr (snd (tfApply env o' p cfg dir w)) = Stderr w"
  "fs (snd (tfApply env o' p cfg dir w)) = applyEffect env (fs w)"
  by (simp_all add: tfApply_def)

lemma tfDestroy_sel [simp]:
  "fst (tfDestroy env o' p cfg dir w) = destroyResult env"
  "trace (snd (tfDestroy env o' p cfg dir w)) = trace w @ [Event TfDestroy (Stderr w) (fs w) (destroyResult env)]"
  "Stderr (snd (tfDestroy env o' p cfg dir w)) = Stderr w"
  "fs (snd (tfDestroy env o' p cfg dir w)) = destroyEffect env (fs w)"
  by (simp_all add: tfDestroy_def)

lemma stateFromFile_sel [simp]:
  "fst (stateFromFile d pr cl p w) = readState (fs w) (d, pr, cl, p)"
  "trace (snd (stateFromFile d pr cl p w)) =
     trace w @ [Event StateFromFile (Stderr w) (fs w) (errorOf (readState (fs w) (d, pr, cl, p)))]"
  "Stderr (snd (stateFromFile d pr cl p w)) = Stderr w"
  "fs (snd (stateFromFile d pr cl p w)) = fs w"
  by (simp_all add: stateFromFile_def)

lemma errorOf_simps [simp]: "errorOf (Inl e) = Some e" "errorOf (Inr x) = None"
  by (simp_all add: errorOf_def)

lemma stateToFile_sel [simp]:
  "fst (stateToFile env sf d pr cl p w) = writeState env"
  "trace (snd (stateToFile env sf d pr cl p w)) = trace w @ [Event StateToFile (Stderr w) (fs w) (writeState env)]"
  "Stderr (snd (stateToFile env sf d pr cl p w)) = Stderr w"
  "fs (snd (stateToFile env sf d pr cl p w)) =
     (case writeState env of Some e \<Rightarrow> fs w
      | None \<Rightarrow> (fs w)\<lparr>stateFiles := (stateFiles (fs w))((d, pr, cl, p) \<mapsto> Valid sf)\<rparr>)"
  by (simp_all add: stateToFile_def split: option.split)

lemma clusterInfoFromFile_sel [simp]:
  "fst (clusterInfoFromFile env d pr cl p w) = readClusterInfo env (fs w) (d, pr, cl, p)"
  "trace (snd (clusterInfoFromFile env d pr cl p w)) =
     trace w @ [Event ClusterInfoFromFile (Stderr w) (fs w) (snd (readClusterInfo env (fs w) (d, pr, cl, p)))]"
  "Stderr (snd (clusterInfoFromFile env d pr cl p w)) = Stderr w"
  "fs (snd (clusterInfoFromFile env d pr cl p w)) = fs w"
  by (simp_all add: clusterInfoFromFile_def)

lemma cleanup_sel [simp]:
  "trace (cleanup d pr cl p w) = trace w @ [Event Cleanup (Stderr w) (fs w) None]"
  "Stderr (cleanup d pr cl p w) = Stderr w"
  "fs (cleanup d pr cl p w) = removeWorkspace (d, pr, cl, p) (fs w)"
  by (simp_all add: cleanup_def)

lemma withTimeouts_sel [simp]:
  "Verbose (withTimeouts env cfg o') = Verbose o'"
  "Persistent (withTimeouts env cfg o') = Persistent o'"
  "DataDir (withTimeouts env cfg o') = DataDir o'"
  by (simp_all add: withTimeouts_def)

lemma since_append [simp]: "since xs (xs @ ys) = ys" by (induction xs) auto
lemma since_self [simp]: "since xs xs = []" using since_append[of xs "[]"] by simp
subsection \<open>Create, step by step\<close>

lemmas steps_simps = logSince_def steps_def outline_def split_beta

lemma logSince_eq: "trace w' = trace w @ evs \<Longrightarrow> logSince w w' = evs"
  by (simp add: logSince_def)

lemma logSince_refl [simp]: "logSince w w = []"
  by (simp add: logSince_def)

lemma logSince_Stderr_upd [simp]: "logSince w (w\<lparr>Stderr := h\<rparr>) = []"
  by (simp add: logSince_def)

lemma logSince_same: "trace w' = trace w \<Longrightarrow> logSince w w' = []"
  by (simp add: logSince_def)

lemma Create_steps_trace:
  "trace (snd (Create_steps env o' p cfg w)) = trace w @ logSince w (snd (Create_steps env o' p cfg w))"
  by (simp add: Create_steps_def steps_simps split: option.split sum.split)

lemma Create_steps_Stderr: "Stderr (snd (Create_steps env o' p cfg w)) = Stderr w"
  by (simp add: Create_steps_def steps_simps split: option.split sum.split)

lemma Create_steps_stderrAt:
  "\<forall>ev \<in> set (logSince w (snd (Create_steps env o' p cfg w))). stderrAt ev = Stderr w"
  by (simp add: Create_steps_def steps_simps split: option.split sum.split)

lemma Create_steps_no_cleanup:
  "Cleanup \<notin> set (steps (logSince w (snd (Create_steps env o' p cfg w))))"
  by (simp add: Create_steps_def steps_simps split: option.split sum.split)

lemma Create_steps_Panic:
  "(fst (Create_steps env o' p cfg w) = Panic) =
     (assertString (cfg ''project'') = None \<or> assertString (cfg ''cluster_name'') = None)"
  by (simp add: Create_steps_def steps_simps split: option.split sum.split)

lemma Create_steps_Panic_world:
  "assertString (cfg ''project'') = None \<or> assertString (cfg ''cluster_name'') = None \<Longrightarrow>
     Create_steps env o' p cfg w = (Panic, w)"
  by (auto simp add: Create_steps_def split: option.split)

lemma Create_steps_order:
  "prefix (steps (logSince w (snd (Create_steps env o' p cfg w)))) (createOrder p)"
  by (simp add: Create_steps_def steps_simps createOrder_def split: option.split sum.split)

lemma Create_steps_failure_last:
  "(s, Some e) \<in> set (outline (logSince w (snd (Create_steps env o' p cfg w)))) \<longrightarrow>
     last (outline (logSince w (snd (Create_steps env o' p cfg w)))) = (s, Some e)"
  by (simp add: Create_steps_def steps_simps split: option.split sum.split)

lemma Create_steps_failure_result:
  "(s, Some e) \<in> set (outline (logSince w (snd (Create_steps env o' p cfg w)))) \<longrightarrow>
     (s = ClusterDir \<longrightarrow> fst (Create_steps env o' p cfg w) = Return (None, Some e)) \<and>
     (s = InitGardenerProvider \<longrightarrow> p = Gardener \<and> fst (Create_steps env o' p cfg w) =
         Return (None, Some (Wrap e ''could not initialize the gardener provider''))) \<and>
     (s = TfInit \<longrightarrow> fst (Create_steps env o' p cfg w) = Return (None, Some e)) \<and>
     (s = InitClusterFiles \<longrightarrow> fst (Create_steps env o' p cfg w) =
         Return (None, Some (Wrap e ''Could not initialize cluster data''))) \<and>
     (s = TfApply \<longrightarrow> fst (Create_steps env o' p cfg w) = Return (None, Some e)) \<and>
     (s = ClusterInfoFromFile \<longrightarrow> (\<exists>ci. fst (Create_steps env o' p cfg w) = Return (ci, Some e)))"
  by (simp add: Create_steps_def steps_simps prod_eq_iff split: option.split sum.split)

lemma Create_steps_info:
  "fst (Create_steps env o' p cfg w) = Return (Some ci, err) \<longrightarrow>
     (TfInit, None) \<in> set (outline (logSince w (snd (Create_steps env o' p cfg w)))) \<and>
     (TfApply, None) \<in> set (outline (logSince w (snd (Create_steps env o' p cfg w)))) \<and>
     (\<exists>pr cl. cfg ''project'' = Some (VString pr) \<and> cfg ''cluster_name'' = Some (VString cl) \<and>
        step (last (logSince w (snd (Create_steps env o' p cfg w)))) = ClusterInfoFromFile \<and>
        readClusterInfo env (fsAt (last (logSince w (snd (Create_steps env o' p cfg w)))))
          (DataDir o', pr, cl, p) = (Some ci, err))"
  by (simp add: Create_steps_def steps_simps assertString_def split: option.split sum.split cfgval.split)

lemma Create_steps_error_nil:
  assumes conv: "\<forall>f ws ci e. readClusterInfo env f ws = (ci, Some e) \<longrightarrow> ci = None"
    and r: "fst (Create_steps env o' p cfg w) = Return (ci, Some e)"
  shows "ci = None"
proof (cases ci)
  case None
  then show ?thesis .
next
  case (Some c)
  with r Create_steps_info [of env o' p cfg w c "Some e"]
  obtain f ws where "readClusterInfo env f ws = (Some c, Some e)" by blast
  with conv show ?thesis by blast
qed

lemma Create_steps_gardener:
  "(InitGardenerProvider, Some e) \<in> set (outline (logSince w (snd (Create_steps env o' p cfg w)))) \<longrightarrow>
     p = Gardener
     \<and> fst (Create_steps env o' p cfg w) = Return (None, Some (Wrap e ''could not initialize the gardener provider''))
     \<and> TfInit \<notin> set (steps (logSince w (snd (Create_steps env o' p cfg w))))
     \<and> TfApply \<notin> set (steps (logSince w (snd (Create_steps env o' p cfg w))))
     \<and> TfDestroy \<notin> set (steps (logSince w (snd (Create_steps env o' p cfg w))))"
  by (simp add: Create_steps_def steps_simps split: option.split sum.split)

lemma Create_steps_run:
  assumes "cfg ''project'' = Some (VString pr)" and "cfg ''cluster_name'' = Some (VString cl)"
  shows "mkdirAll env = Some e \<Longrightarrow>
      fst (Create_steps env o' p cfg w) = Return (None, Some e) \<and>
      outline (logSince w (snd (Create_steps env o' p cfg w))) = [(ClusterDir, Some e)]"
    and "mkdirAll env = None \<Longrightarrow> p = Gardener \<Longrightarrow> gardenerInit env = Some e \<Longrightarrow>
      fst (Create_steps env o' p cfg w) =
        Return (None, Some (Wrap e ''could not initialize the gardener provider'')) \<and>
      outline (logSince w (snd (Create_steps env o' p cfg w))) =
        [(ClusterDir, None), (InitGardenerProvider, Some e)]"
    and "mkdirAll env = None \<Longrightarrow> (p = Gardener \<longrightarrow> gardenerInit env = None) \<Longrightarrow>
      initResult env = Some e \<Longrightarrow>
      fst (Create_steps env o' p cfg w) = Return (None, Some e) \<and>
      outline (logSince w (snd (Create_steps env o' p cfg w))) =
        [(ClusterDir, None)] @ bootOutline p @ [(TfInit, Some e)]"
    and "mkdirAll env = None \<Longrightarrow> (p = Gardener \<longrightarrow> gardenerInit env = None) \<Longrightarrow>
      initResult env = None \<Longrightarrow> clusterFilesResult env = Some e \<Longrightarrow>
      fst (Create_steps env o' p cfg w) =
        Return (None, Some (Wrap e ''Could not initialize cluster data'')) \<and>
      outline (logSince w (snd (Create_steps env o' p cfg w))) =
        [(ClusterDir, None)] @ bootOutline p @ [(TfInit, None), (InitClusterFiles, Some e)]"
    and "setupSucceeds env p \<Longrightarrow> applyResult env = Some e \<Longrightarrow>
      fst (Create_steps env o' p cfg w) = Return (None, Some e) \<and>
      outline (logSince w (snd (Create_steps env o' p cfg w))) = setupOutline p @ [(TfApply, Some e)]"
    and "setupSucceeds env p \<Longrightarrow> applyResult env = None \<Longrightarrow>
      fst (Create_steps env o' p cfg w) =
        Return (readClusterInfo env (applyEffect env (fsAfterSetup env (DataDir o', pr, cl, p) (fs w)))
          (DataDir o', pr, cl, p)) \<and>
      outline (logSince w (snd (Create_steps env o' p cfg w))) =
        setupOutline p @ [(TfApply, None),
          (ClusterInfoFromFile,
           snd (readClusterInfo env (applyEffect env (fsAfterSetup env (DataDir o', pr, cl, p) (fs w)))
             (DataDir o', pr, cl, p)))]"
  using assms
  by (auto simp add: Create_steps_def steps_simps setupSucceeds_def bootOutline_def setupOutline_def
      fsAfterSetup_def)

lemma Create_deferred_fst: "fst (Create_deferred env o' p cfg w) = fst (Create_steps env o' p cfg w)"
  by (simp add: Create_deferred_def split_beta Create_steps_Panic_world split: option.split)

lemma Create_deferred_trace:
  "trace (snd (Create_deferred env o' p cfg w)) =
     trace w @ logSince w (snd (Create_steps env o' p cfg w)) @
       (if \<not> Persistent o' \<and> assertString (cfg ''project'') \<noteq> None \<and> assertString (cfg ''cluster_name'') \<noteq> None
        then [Event Cleanup (Stderr w) (fs (snd (Create_steps env o' p cfg w))) None] else [])"
  by (auto simp add: Create_deferred_def split_beta Create_steps_Panic_world Create_steps_trace Create_steps_Stderr
      split: option.split)

lemma Create_deferred_Stderr: "Stderr (snd (Create_deferred env o' p cfg w)) = Stderr w"
  by (simp add: Create_deferred_def split_beta Create_steps_Stderr split: option.split)


lemma mainLog_id: "Cleanup \<notin> set (steps L) \<Longrightarrow> mainLog L = L"
  by (induction L) (auto simp: mainLog_def steps_def)

lemma mainLog_append_cleanup [simp]: "mainLog (L @ [Event Cleanup h f r]) = mainLog L"
  by (simp add: mainLog_def)

lemma entry_sel [simp]: "trace (entry b w) = trace w" "fs (entry b w) = fs w"
  "Stderr (entry b w) = (if b then DevNull else Stderr w)"
  by (simp_all add: entry_def)

lemma Create_open_fails:
  "\<not> Verbose (ops t) \<Longrightarrow> openDevNull env = Some e \<Longrightarrow>
     Create env t p cfg w = (Return (None, Some e), w\<lparr>Stderr := NilHandle\<rparr>)"
  by (simp add: Create_def Let_def)

lemma Create_open_fails_log:
  "\<not> Verbose (ops t) \<Longrightarrow> openDevNull env = Some e \<Longrightarrow> logSince w (snd (Create env t p cfg w)) = []"
  by (simp add: Create_open_fails logSince_same)

lemma Create_fst:
  "Verbose (ops t) \<or> openDevNull env = None \<Longrightarrow>
     fst (Create env t p cfg w) =
       fst (Create_steps env (withTimeouts env cfg (ops t)) p cfg (entry (\<not> Verbose (ops t)) w))"
  by (auto simp add: Create_def Let_def split_beta Create_deferred_fst entry_def)

lemma Create_log:
  "Verbose (ops t) \<or> openDevNull env = None \<Longrightarrow>
     logSince w (snd (Create env t p cfg w)) =
       logSince (entry (\<not> Verbose (ops t)) w)
         (snd (Create_steps env (withTimeouts env cfg (ops t)) p cfg (entry (\<not> Verbose (ops t)) w))) @
       (if \<not> Persistent (ops t) \<and> assertString (cfg ''project'') \<noteq> None \<and> assertString (cfg ''cluster_name'') \<noteq> None
        then [Event Cleanup (Stderr (entry (\<not> Verbose (ops t)) w))
                (fs (snd (Create_steps env (withTimeouts env cfg (ops t)) p cfg (entry (\<not> Verbose (ops t)) w))))
                None] else [])"
  by (rule logSince_eq) (auto simp add: Create_def Let_def split_beta Create_deferred_trace entry_def)


lemma Create_mainLog:
  "Verbose (ops t) \<or> openDevNull env = None \<Longrightarrow>
     mainLog (logSince w (snd (Create env t p cfg w))) =
       logSince (entry (\<not> Verbose (ops t)) w)
         (snd (Create_steps env (withTimeouts env cfg (ops t)) p cfg (entry (\<not> Verbose (ops t)) w)))"
  by (simp add: Create_log mainLog_id Create_steps_no_cleanup)

lemma Create_open_fails_mainLog:
  "\<not> (Verbose (ops t) \<or> openDevNull env = None) \<Longrightarrow>
     mainLog (logSince w (snd (Create env t p cfg w))) = [] \<and>
     (\<exists>e. fst (Create env t p cfg w) = Return (None, Some e))"
  by (auto simp add: Create_open_fails mainLog_def)

lemma Create_order:
  "prefix (steps (mainLog (logSince w (snd (Create env t p cfg w))))) (createOrder p)"
proof (cases "Verbose (ops t) \<or> openDevNull env = None")
  case True
  then show ?thesis by (simp add: Create_mainLog Create_steps_order)
next
  case False
  then show ?thesis using Create_open_fails_mainLog [of t env w p cfg] by (simp add: steps_def)
qed

lemma Create_failure:
  assumes "(s, Some e) \<in> set (outline (mainLog (logSince w (snd (Create env t p cfg w)))))"
  shows "last (outline (mainLog (logSince w (snd (Create env t p cfg w))))) = (s, Some e)"
    and "s = ClusterDir \<Longrightarrow> fst (Create env t p cfg w) = Return (None, Some e)"
    and "s = InitGardenerProvider \<Longrightarrow> fst (Create env t p cfg w) =
           Return (None, Some (Wrap e ''could not initialize the gardener provider''))"
    and "s = TfInit \<Longrightarrow> fst (Create env t p cfg w) = Return (None, Some e)"
    and "s = InitClusterFiles \<Longrightarrow> fst (Create env t p cfg w) =
           Return (None, Some (Wrap e ''Could not initialize cluster data''))"
    and "s = TfApply \<Longrightarrow> fst (Create env t p cfg w) = Return (None, Some e)"
    and "s = ClusterInfoFromFile \<Longrightarrow> \<exists>ci. fst (Create env t p cfg w) = Return (ci, Some e)"
proof -
  have ok: "Verbose (ops t) \<or> openDevNull env = None"
  proof (rule ccontr)
    assume "\<not> (Verbose (ops t) \<or> openDevNull env = None)"
    then have "mainLog (logSince w (snd (Create env t p cfg w))) = []"
      by (simp add: Create_open_fails_mainLog)
    with assms show False by (simp add: outline_def)
  qed
  let ?o = "withTimeouts env cfg (ops t)" and ?w = "entry (\<not> Verbose (ops t)) w"
  from assms have m: "(s, Some e) \<in> set (outline (logSince ?w (snd (Create_steps env ?o p cfg ?w))))"
    by (simp add: Create_mainLog [OF ok])
  show "last (outline (mainLog (logSince w (snd (Create env t p cfg w))))) = (s, Some e)"
    using m Create_steps_failure_last [of s e ?w env ?o p cfg] by (simp add: Create_mainLog [OF ok])
  note r = Create_steps_failure_result [of s e ?w env ?o p cfg, rule_format, OF m]
  show "s = ClusterDir \<Longrightarrow> fst (Create env t p cfg w) = Return (None, Some e)"
    using r by (auto simp add: Create_fst [OF ok])
  show "s = InitGardenerProvider \<Longrightarrow> fst (Create env t p cfg w) =
           Return (None, Some (Wrap e ''could not initialize the gardener provider''))"
    using r by (auto simp add: Create_fst [OF ok])
  show "s = TfInit \<Longrightarrow> fst (Create env t p cfg w) = Return (None, Some e)"
    using r by (auto simp add: Create_fst [OF ok])
  show "s = InitClusterFiles \<Longrightarrow> fst (Create env t p cfg w) =
           Return (None, Some (Wrap e ''Could not initialize cluster data''))"
    using r by (auto simp add: Create_fst [OF ok])
  show "s = TfApply \<Longrightarrow> fst (Create env t p cfg w) = Return (None, Some e)"
    using r by (auto simp add: Create_fst [OF ok])
  show "s = ClusterInfoFromFile \<Longrightarrow> \<exists>ci. fst (Create env t p cfg w) = Return (ci, Some e)"
    using r by (auto simp add: Create_fst [OF ok])
qed

lemma Create_failure_returned:
  assumes "(s, Some e) \<in> set (outline (mainLog (logSince w (snd (Create env t p cfg w)))))"
  shows "if s = ClusterInfoFromFile then \<exists>ci. fst (Create env t p cfg w) = Return (ci, Some e)
         else fst (Create env t p cfg w) = Return (None, Some (returnedError s e))"
proof -
  have "s \<in> set (steps (mainLog (logSince w (snd (Create env t p cfg w)))))"
    using assms by (force simp: outline_def steps_def)
  then have "s \<in> set (createOrder p)"
    using Create_order [of w env t p cfg] set_mono_prefix by blast
  then consider "s = ClusterDir" | "s = InitGardenerProvider" | "s = TfInit" | "s = InitClusterFiles"
    | "s = TfApply" | "s = ClusterInfoFromFile"
    by (auto simp: createOrder_def split: if_splits)
  then show ?thesis
    using Create_failure(2-7) [OF assms] by cases (simp_all add: returnedError_def)
qed

lemma Create_info:
  assumes "fst (Create env t p cfg w) = Return (Some ci, err)"
  shows "(TfInit, None) \<in> set (outline (mainLog (logSince w (snd (Create env t p cfg w)))))"
    and "(TfApply, None) \<in> set (outline (mainLog (logSince w (snd (Create env t p cfg w)))))"
    and "\<exists>pr cl. cfg ''project'' = Some (VString pr) \<and> cfg ''cluster_name'' = Some (VString cl) \<and>
        step (last (mainLog (logSince w (snd (Create env t p cfg w))))) = ClusterInfoFromFile \<and>
        readClusterInfo env (fsAt (last (mainLog (logSince w (snd (Create env t p cfg w))))))
          (DataDir (ops t), pr, cl, p) = (Some ci, err)"
proof -
  have ok: "Verbose (ops t) \<or> openDevNull env = None"
  proof (rule ccontr)
    assume "\<not> (Verbose (ops t) \<or> openDevNull env = None)"
    then have "\<exists>e. fst (Create env t p cfg w) = Return (None, Some e)"
      by (simp add: Create_open_fails_mainLog)
    with assms show False by simp
  qed
  let ?o = "withTimeouts env cfg (ops t)" and ?w = "entry (\<not> Verbose (ops t)) w"
  from assms have "fst (Create_steps env ?o p cfg ?w) = Return (Some ci, err)"
    by (simp add: Create_fst [OF ok])
  note r = Create_steps_info [of env ?o p cfg ?w ci err, rule_format, OF this]
  show "(TfInit, None) \<in> set (outline (mainLog (logSince w (snd (Create env t p cfg w)))))"
    using r by (simp add: Create_mainLog [OF ok])
  show "(TfApply, None) \<in> set (outline (mainLog (logSince w (snd (Create env t p cfg w)))))"
    using r by (simp add: Create_mainLog [OF ok])
  show "\<exists>pr cl. cfg ''project'' = Some (VString pr) \<and> cfg ''cluster_name'' = Some (VString cl) \<and>
        step (last (mainLog (logSince w (snd (Create env t p cfg w))))) = ClusterInfoFromFile \<and>
        readClusterInfo env (fsAt (last (mainLog (logSince w (snd (Create env t p cfg w))))))
          (DataDir (ops t), pr, cl, p) = (Some ci, err)"
    using r by (simp add: Create_mainLog [OF ok] withTimeouts_sel)
qed

subsection \<open>Delete, step by step\<close>

lemma Delete_steps_trace:
  "trace (snd (Delete_steps env o' sf p cfg w)) = trace w @ logSince w (snd (Delete_steps env o' sf p cfg w))"
  by (simp add: Delete_steps_def steps_simps split: option.split sum.split)

lemma Delete_steps_Stderr: "Stderr (snd (Delete_steps env o' sf p cfg w)) = Stderr w"
  by (simp add: Delete_steps_def steps_simps split: option.split sum.split)

lemma Delete_steps_stderrAt:
  "\<forall>ev \<in> set (logSince w (snd (Delete_steps env o' sf p cfg w))). stderrAt ev = Stderr w"
  by (simp add: Delete_steps_def steps_simps split: option.split sum.split)

lemma Delete_steps_no_cleanup:
  "Cleanup \<notin> set (steps (logSince w (snd (Delete_steps env o' sf p cfg w))))"
  by (simp add: Delete_steps_def steps_simps split: option.split sum.split)

lemma Delete_steps_Panic:
  "(fst (Delete_steps env o' sf p cfg w) = Panic) =
     (assertString (cfg ''project'') = None \<or> assertString (cfg ''cluster_name'') = None)"
  by (simp add: Delete_steps_def steps_simps split: option.split sum.split)

lemma Delete_steps_Panic_world:
  "assertString (cfg ''project'') = None \<or> assertString (cfg ''cluster_name'') = None \<Longrightarrow>
     Delete_steps env o' sf p cfg w = (Panic, w)"
  by (auto simp add: Delete_steps_def split: option.split)

lemma in_outline_mainLog [simp]:
  "s \<noteq> Cleanup \<Longrightarrow> (s, r) \<in> set (outline (mainLog L)) \<longleftrightarrow> (s, r) \<in> set (outline L)"
  by (induction L) (auto simp: outline_def mainLog_def)

lemma in_steps_mainLog [simp]:
  "s \<noteq> Cleanup \<Longrightarrow> s \<in> set (steps (mainLog L)) \<longleftrightarrow> s \<in> set (steps L)"
  by (induction L) (auto simp: steps_def mainLog_def)

lemma Delete_steps_gardener:
  "(InitGardenerProvider, Some e) \<in> set (outline (logSince w (snd (Delete_steps env o' sf p cfg w)))) \<longrightarrow>
     p = Gardener
     \<and> fst (Delete_steps env o' sf p cfg w) = Return (Some (Wrap e ''could not initialize the gardener provider''))
     \<and> TfInit \<notin> set (steps (logSince w (snd (Delete_steps env o' sf p cfg w))))
     \<and> TfApply \<notin> set (steps (logSince w (snd (Delete_steps env o' sf p cfg w))))
     \<and> TfDestroy \<notin> set (steps (logSince w (snd (Delete_steps env o' sf p cfg w))))"
  by (simp add: Delete_steps_def steps_simps split: option.split sum.split)

lemma Delete_steps_load_fails:
  "(StateFromFile, Some e) \<in> set (outline (logSince w (snd (Delete_steps env o' None p cfg w)))) \<longrightarrow>
     fst (Delete_steps env o' None p cfg w) =
       Return (Some (Wrap e ''no state provided, attempted to load from file''))
     \<and> TfDestroy \<notin> set (steps (logSince w (snd (Delete_steps env o' None p cfg w))))"
  by (simp add: Delete_steps_def steps_simps split: option.split sum.split)

lemma Delete_steps_store_fails:
  "(StateToFile, Some e) \<in> set (outline (logSince w (snd (Delete_steps env o' (Some f) p cfg w)))) \<longrightarrow>
     fst (Delete_steps env o' (Some f) p cfg w) = Return (Some (Wrap e ''could not store state into file''))
     \<and> TfDestroy \<notin> set (steps (logSince w (snd (Delete_steps env o' (Some f) p cfg w))))"
  by (simp add: Delete_steps_def steps_simps split: option.split sum.split)

lemma Delete_steps_stored_before_destroy:
  "\<forall>ev \<in> set (logSince w (snd (Delete_steps env o' (Some f) p cfg w))). step ev = TfDestroy \<longrightarrow>
     (StateToFile, None) \<in> set (outline (takeWhile (\<lambda>x. step x \<noteq> TfDestroy)
        (logSince w (snd (Delete_steps env o' (Some f) p cfg w)))))
     \<and> (\<exists>pr cl. cfg ''project'' = Some (VString pr) \<and> cfg ''cluster_name'' = Some (VString cl) \<and>
           stateFiles (fsAt ev) (DataDir o', pr, cl, p) = Some (Valid f))"
  by (simp add: Delete_steps_def steps_simps assertString_def split: option.split sum.split cfgval.split)

lemma Delete_steps_no_load:
  "StateFromFile \<notin> set (steps (logSince w (snd (Delete_steps env o' (Some f) p cfg w))))"
  by (simp add: Delete_steps_def steps_simps split: option.split sum.split)
lemma Delete_steps_setup_run:
  assumes "cfg ''project'' = Some (VString pr)" and "cfg ''cluster_name'' = Some (VString cl)"
  shows "mkdirAll env = None \<Longrightarrow> p = Gardener \<Longrightarrow> gardenerInit env = Some e \<Longrightarrow>
      fst (Delete_steps env o' sf p cfg w) =
        Return (Some (Wrap e ''could not initialize the gardener provider'')) \<and>
      outline (logSince w (snd (Delete_steps env o' sf p cfg w))) =
        [(ClusterDir, None), (InitGardenerProvider, Some e)]"
  using assms by (auto simp add: Delete_steps_def steps_simps)

lemma Delete_steps_state_run:
  assumes "cfg ''project'' = Some (VString pr)" and "cfg ''cluster_name'' = Some (VString cl)"
    and "setupSucceeds env p"
  shows "readState (fsAfterSetup env (DataDir o', pr, cl, p) (fs w)) (DataDir o', pr, cl, p) = Inl e \<Longrightarrow>
      fst (Delete_steps env o' None p cfg w) =
        Return (Some (Wrap e ''no state provided, attempted to load from file'')) \<and>
      outline (logSince w (snd (Delete_steps env o' None p cfg w))) =
        setupOutline p @ [(StateFromFile, Some e)]"
    and "writeState env = Some e \<Longrightarrow>
      fst (Delete_steps env o' (Some f) p cfg w) =
        Return (Some (Wrap e ''could not store state into file'')) \<and>
      outline (logSince w (snd (Delete_steps env o' (Some f) p cfg w))) =
        setupOutline p @ [(StateToFile, Some e)]"
    and "writeState env = None \<Longrightarrow>
      fst (Delete_steps env o' (Some f) p cfg w) = Return (destroyResult env) \<and>
      outline (logSince w (snd (Delete_steps env o' (Some f) p cfg w))) =
        setupOutline p @ [(StateToFile, None), (TfDestroy, destroyResult env)] \<and>
      fsAt (last (logSince w (snd (Delete_steps env o' (Some f) p cfg w)))) =
        (fsAfterSetup env (DataDir o', pr, cl, p) (fs w))
          \<lparr>stateFiles := (stateFiles (fsAfterSetup env (DataDir o', pr, cl, p) (fs w)))
             ((DataDir o', pr, cl, p) \<mapsto> Valid f)\<rparr>"
  using assms
  by (auto simp add: Delete_steps_def steps_simps setupSucceeds_def bootOutline_def setupOutline_def
      fsAfterSetup_def split: option.split)

lemma Delete_deferred_fst: "fst (Delete_deferred env o' sf p cfg w) = fst (Delete_steps env o' sf p cfg w)"
  by (simp add: Delete_deferred_def split_beta Delete_steps_Panic_world split: option.split)

lemma Delete_deferred_trace:
  "trace (snd (Delete_deferred env o' sf p cfg w)) =
     trace w @ logSince w (snd (Delete_steps env o' sf p cfg w)) @
       (if \<not> Persistent o' \<and> assertString (cfg ''project'') \<noteq> None \<and> assertString (cfg ''cluster_name'') \<noteq> None
        then [Event Cleanup (Stderr w) (fs (snd (Delete_steps env o' sf p cfg w))) None] else [])"
  by (auto simp add: Delete_deferred_def split_beta Delete_steps_Panic_world Delete_steps_trace Delete_steps_Stderr
      split: option.split)

lemma Delete_deferred_Stderr: "Stderr (snd (Delete_deferred env o' sf p cfg w)) = Stderr w"
  by (simp add: Delete_deferred_def split_beta Delete_steps_Stderr split: option.split)


lemma Delete_open_fails:
  "openDevNull env = Some e \<Longrightarrow>
     Delete env t sf p cfg w = (Return (Some e), w\<lparr>Stderr := NilHandle\<rparr>)"
  by (simp add: Delete_def Let_def)

lemma Delete_open_fails_log:
  "openDevNull env = Some e \<Longrightarrow> logSince w (snd (Delete env t sf p cfg w)) = []"
  by (simp add: Delete_open_fails logSince_same)

lemma Delete_fst:
  "openDevNull env = None \<Longrightarrow>
     fst (Delete env t sf p cfg w) =
       fst (Delete_steps env (withTimeouts env cfg (ops t)) sf p cfg (entry True w))"
  by (auto simp add: Delete_def Let_def split_beta Delete_deferred_fst entry_def)

lemma Delete_log:
  "openDevNull env = None \<Longrightarrow>
     logSince w (snd (Delete env t sf p cfg w)) =
       logSince (entry True w)
         (snd (Delete_steps env (withTimeouts env cfg (ops t)) sf p cfg (entry True w))) @
       (if \<not> Persistent (ops t) \<and> assertString (cfg ''project'') \<noteq> None \<and> assertString (cfg ''cluster_name'') \<noteq> None
        then [Event Cleanup (Stderr (entry True w))
                (fs (snd (Delete_steps env (withTimeouts env cfg (ops t)) sf p cfg (entry True w))))
                None] else [])"
  by (rule logSince_eq) (auto simp add: Delete_def Let_def split_beta Delete_deferred_trace entry_def)


lemma Delete_mainLog:
  "openDevNull env = None \<Longrightarrow>
     mainLog (logSince w (snd (Delete env t sf p cfg w))) =
       logSince (entry True w)
         (snd (Delete_steps env (withTimeouts env cfg (ops t)) sf p cfg (entry True w)))"
  by (simp add: Delete_log mainLog_id Delete_steps_no_cleanup)

lemma Delete_open_fails_mainLog:
  "openDevNull env \<noteq> None \<Longrightarrow> mainLog (logSince w (snd (Delete env t sf p cfg w))) = []"
  by (auto simp add: Delete_open_fails mainLog_def)

subsection \<open>Create: the order of the steps\<close>

lemma Create_log_shape:
  "prefix (steps (mainLog (logSince w (snd (Create env t p cfg w))))) (createOrder p)
   \<and> (\<forall>s e. (s, Some e) \<in> set (outline (mainLog (logSince w (snd (Create env t p cfg w))))) \<longrightarrow>
         last (outline (mainLog (logSince w (snd (Create env t p cfg w))))) = (s, Some e)
         \<and> (\<exists>ci. fst (Create env t p cfg w) = Return (ci, Some (returnedError s e)))
         \<and> (s \<noteq> ClusterInfoFromFile \<longrightarrow>
              fst (Create env t p cfg w) = Return (None, Some (returnedError s e))))
   \<and> (\<forall>ci err. fst (Create env t p cfg w) = Return (Some ci, err) \<longrightarrow>
         (TfInit, None) \<in> set (outline (mainLog (logSince w (snd (Create env t p cfg w)))))
         \<and> (TfApply, None) \<in> set (outline (mainLog (logSince w (snd (Create env t p cfg w)))))
         \<and> (\<exists>pr cl. cfg ''project'' = Some (VString pr) \<and> cfg ''cluster_name'' = Some (VString cl) \<and>
               step (last (mainLog (logSince w (snd (Create env t p cfg w))))) = ClusterInfoFromFile \<and>
               readClusterInfo env (fsAt (last (mainLog (logSince w (snd (Create env t p cfg w))))))
                 (DataDir (ops t), pr, cl, p) = (Some ci, err)))"
proof (intro conjI allI impI)
  show "prefix (steps (mainLog (logSince w (snd (Create env t p cfg w))))) (createOrder p)"
    by (rule Create_order)
next
  fix s e
  assume m: "(s, Some e) \<in> set (outline (mainLog (logSince w (snd (Create env t p cfg w)))))"
  show "last (outline (mainLog (logSince w (snd (Create env t p cfg w))))) = (s, Some e)"
    by (rule Create_failure(1) [OF m])
  show "\<exists>ci. fst (Create env t p cfg w) = Return (ci, Some (returnedError s e))"
    using Create_failure_returned [OF m]
    by (cases "s = ClusterInfoFromFile") (auto simp: returnedError_def)
  assume "s \<noteq> ClusterInfoFromFile"
  with Create_failure_returned [OF m]
  show "fst (Create env t p cfg w) = Return (None, Some (returnedError s e))" by simp
next
  fix ci err
  assume r: "fst (Create env t p cfg w) = Return (Some ci, err)"
  show "(TfInit, None) \<in> set (outline (mainLog (logSince w (snd (Create env t p cfg w)))))"
    by (rule Create_info(1) [OF r])
  show "(TfApply, None) \<in> set (outline (mainLog (logSince w (snd (Create env t p cfg w)))))"
    by (rule Create_info(2) [OF r])
  show "\<exists>pr cl. cfg ''project'' = Some (VString pr) \<and> cfg ''cluster_name'' = Some (VString cl) \<and>
          step (last (mainLog (logSince w (snd (Create env t p cfg w))))) = ClusterInfoFromFile \<and>
          readClusterInfo env (fsAt (last (mainLog (logSince w (snd (Create env t p cfg w))))))
            (DataDir (ops t), pr, cl, p) = (Some ci, err)"
    by (rule Create_info(3) [OF r])
qed

lemma Create_outline:
  assumes "cfg ''project'' = Some (VString pr)" and "cfg ''cluster_name'' = Some (VString cl)"
    and ok: "Verbose (ops t) \<or> openDevNull env = None"
  shows "outline (logSince w (snd (Create env t p cfg w))) =
     outline (logSince (entry (\<not> Verbose (ops t)) w)
       (snd (Create_steps env (withTimeouts env cfg (ops t)) p cfg (entry (\<not> Verbose (ops t)) w))))
     @ cleanupOutline (ops t)"
  using assms(1,2) by (simp add: Create_log [OF ok] outline_def cleanupOutline_def)

lemma Create_run:
  assumes id: "cfg ''project'' = Some (VString pr)" "cfg ''cluster_name'' = Some (VString cl)"
    and ok: "Verbose (ops t) \<or> openDevNull env = None"
  shows "mkdirAll env = Some e \<Longrightarrow>
      fst (Create env t p cfg w) = Return (None, Some e) \<and>
      outline (logSince w (snd (Create env t p cfg w))) = [(ClusterDir, Some e)] @ cleanupOutline (ops t)"
    and "mkdirAll env = None \<Longrightarrow> p = Gardener \<Longrightarrow> gardenerInit env = Some e \<Longrightarrow>
      fst (Create env t p cfg w) =
        Return (None, Some (Wrap e ''could not initialize the gardener provider'')) \<and>
      outline (logSince w (snd (Create env t p cfg w))) =
        [(ClusterDir, None), (InitGardenerProvider, Some e)] @ cleanupOutline (ops t)"
    and "mkdirAll env = None \<Longrightarrow> (p = Gardener \<longrightarrow> gardenerInit env = None) \<Longrightarrow>
      initResult env = Some e \<Longrightarrow>
      fst (Create env t p cfg w) = Return (None, Some e) \<and>
      outline (logSince w (snd (Create env t p cfg w))) =
        [(ClusterDir, None)] @ bootOutline p @ [(TfInit, Some e)] @ cleanupOutline (ops t)"
    and "mkdirAll env = None \<Longrightarrow> (p = Gardener \<longrightarrow> gardenerInit env = None) \<Longrightarrow>
      initResult env = None \<Longrightarrow> clusterFilesResult env = Some e \<Longrightarrow>
      fst (Create env t p cfg w) =
        Return (None, Some (Wrap e ''Could not initialize cluster data'')) \<and>
      outline (logSince w (snd (Create env t p cfg w))) =
        [(ClusterDir, None)] @ bootOutline p @ [(TfInit, None), (InitClusterFiles, Some e)]
          @ cleanupOutline (ops t)"
    and "setupSucceeds env p \<Longrightarrow> applyResult env = Some e \<Longrightarrow>
      fst (Create env t p cfg w) = Return (None, Some e) \<and>
      outline (logSince w (snd (Create env t p cfg w))) =
        setupOutline p @ [(TfApply, Some e)] @ cleanupOutline (ops t)"
    and "setupSucceeds env p \<Longrightarrow> applyResult env = None \<Longrightarrow>
      fst (Create env t p cfg w) =
        Return (readClusterInfo env (applyEffect env (fsAfterSetup env (DataDir (ops t), pr, cl, p) (fs w)))
          (DataDir (ops t), pr, cl, p)) \<and>
      outline (logSince w (snd (Create env t p cfg w))) =
        setupOutline p @ [(TfApply, None),
          (ClusterInfoFromFile,
           snd (readClusterInfo env (applyEffect env (fsAfterSetup env (DataDir (ops t), pr, cl, p) (fs w)))
             (DataDir (ops t), pr, cl, p)))] @ cleanupOutline (ops t)"
  using Create_steps_run [OF id, where env = env and p = p
      and o' = "withTimeouts env cfg (ops t)" and w = "entry (\<not> Verbose (ops t)) w"]
  by (simp_all add: Create_fst [OF ok] Create_outline [OF id ok])

lemma Create_run_cases:
  "(cfg ''project'' = Some (VString pr) \<and> cfg ''cluster_name'' = Some (VString cl)
      \<and> (Verbose (ops t) \<or> openDevNull env = None) \<longrightarrow>
      (mkdirAll env = Some e \<longrightarrow>
         fst (Create env t p cfg w) = Return (None, Some e) \<and>
         outline (logSince w (snd (Create env t p cfg w))) =
           [(ClusterDir, Some e)] @ cleanupOutline (ops t))
      \<and> (mkdirAll env = None \<and> p = Gardener \<and> gardenerInit env = Some e \<longrightarrow>
         fst (Create env t p cfg w) =
           Return (None, Some (Wrap e ''could not initialize the gardener provider'')) \<and>
         outline (logSince w (snd (Create env t p cfg w))) =
           [(ClusterDir, None), (InitGardenerProvider, Some e)] @ cleanupOutline (ops t))
      \<and> (mkdirAll env = None \<and> (p = Gardener \<longrightarrow> gardenerInit env = None)
           \<and> initResult env = Some e \<longrightarrow>
         fst (Create env t p cfg w) = Return (None, Some e) \<and>
         outline (logSince w (snd (Create env t p cfg w))) =
           [(ClusterDir, None)] @ bootOutline p @ [(TfInit, Some e)] @ cleanupOutline (ops t))
      \<and> (mkdirAll env = None \<and> (p = Gardener \<longrightarrow> gardenerInit env = None)
           \<and> initResult env = None \<and> clusterFilesResult env = Some e \<longrightarrow>
         fst (Create env t p cfg w) =
           Return (None, Some (Wrap e ''Could not initialize cluster data'')) \<and>
         outline (logSince w (snd (Create env t p cfg w))) =
           [(ClusterDir, None)] @ bootOutline p @ [(TfInit, None), (InitClusterFiles, Some e)]
             @ cleanupOutline (ops t))
      \<and> (setupSucceeds env p \<and> applyResult env = Some e \<longrightarrow>
         fst (Create env t p cfg w) = Return (None, Some e) \<and>
         outline (logSince w (snd (Create env t p cfg w))) =
           setupOutline p @ [(TfApply, Some e)] @ cleanupOutline (ops t))
      \<and> (setupSucceeds env p \<and> applyResult env = None \<longrightarrow>
         fst (Create env t p cfg w) =
           Return (readClusterInfo env
             (applyEffect env (fsAfterSetup env (DataDir (ops t), pr, cl, p) (fs w)))
             (DataDir (ops t), pr, cl, p)) \<and>
         outline (logSince w (snd (Create env t p cfg w))) =
           setupOutline p @ [(TfApply, None),
             (ClusterInfoFromFile,
              snd (readClusterInfo env
                (applyEffect env (fsAfterSetup env (DataDir (ops t), pr, cl, p) (fs w)))
                (DataDir (ops t), pr, cl, p)))] @ cleanupOutline (ops t)))"
  by (intro impI conjI; (elim conjE)?; simp add: Create_run)

text \<open>
  C4, as the code has it. Take a \<^verbatim>\<open>Create\<close> that reaches its steps: the configuration
  carries the strings \<open>project\<close> and \<open>cluster_name\<close>, and standard error was redirected
  or the operator is verbose. The calls run in the fixed order workspace resolution, provider
  bootstrap (Gardener only), engine init, config materialization, engine apply, read of the
  ClusterInfo, then the deferred cleanup if the workspace is ephemeral. The first of the
  five calls before the read that fails ends the sequence: \<^verbatim>\<open>Create\<close> returns its error
  (wrapped for the bootstrap and for the input files) with a nil ClusterInfo. When the five
  succeed, the read is called on the file system that apply left, and \<^verbatim>\<open>Create\<close> returns
  the pair of the read as it is. For every \<^verbatim>\<open>Create\<close>: the log without the cleanup is a
  prefix of that order, a call that failed is the last one, and a non-nil ClusterInfo is
  returned only after init and apply succeeded, as what the read returned.
\<close>

theorem Create_fixed_order:
  "(cfg ''project'' = Some (VString pr) \<and> cfg ''cluster_name'' = Some (VString cl)
      \<and> (Verbose (ops t) \<or> openDevNull env = None) \<longrightarrow>
      (mkdirAll env = Some e \<longrightarrow>
         fst (Create env t p cfg w) = Return (None, Some e) \<and>
         outline (logSince w (snd (Create env t p cfg w))) =
           [(ClusterDir, Some e)] @ cleanupOutline (ops t))
      \<and> (mkdirAll env = None \<and> p = Gardener \<and> gardenerInit env = Some e \<longrightarrow>
         fst (Create env t p cfg w) =
           Return (None, Some (Wrap e ''could not initialize the gardener provider'')) \<and>
         outline (logSince w (snd (Create env t p cfg w))) =
           [(ClusterDir, None), (InitGardenerProvider, Some e)] @ cleanupOutline (ops t))
      \<and> (mkdirAll env = None \<and> (p = Gardener \<longrightarrow> gardenerInit env = None)
           \<and> initResult env = Some e \<longrightarrow>
         fst (Create env t p cfg w) = Return (None, Some e) \<and>
         outline (logSince w (snd (Create env t p cfg w))) =
           [(ClusterDir, None)] @ bootOutline p @ [(TfInit, Some e)] @ cleanupOutline (ops t))
      \<and> (mkdirAll env = None \<and> (p = Gardener \<longrightarrow> gardenerInit env = None)
           \<and> initResult env = None \<and> clusterFilesResult env = Some e \<longrightarrow>
         fst (Create env t p cfg w) =
           Return (None, Some (Wrap e ''Could not initialize cluster data'')) \<and>
         outline (logSince w (snd (Create env t p cfg w))) =
           [(ClusterDir, None)] @ bootOutline p @ [(TfInit, None), (InitClusterFiles, Some e)]
             @ cleanupOutline (ops t))
      \<and> (setupSucceeds env p \<and> applyResult env = Some e \<longrightarrow>
         fst (Create env t p cfg w) = Return (None, Some e) \<and>
         outline (logSince w (snd (Create env t p cfg w))) =
           setupOutline p @ [(TfApply, Some e)] @ cleanupOutline (ops t))
      \<and> (setupSucceeds env p \<and> applyResult env = None \<longrightarrow>
         fst (Create env t p cfg w) =
           Return (readClusterInfo env
             (applyEffect env (fsAfterSetup env (DataDir (ops t), pr, cl, p) (fs w)))
             (DataDir (ops t), pr, cl, p)) \<and>
         outline (logSince w (snd (Create env t p cfg w))) =
           setupOutline p @ [(TfApply, None),
             (ClusterInfoFromFile,
              snd (readClusterInfo env
                (applyEffect env (fsAfterSetup env (DataDir (ops t), pr, cl, p) (fs w)))
                (DataDir (ops t), pr, cl, p)))] @ cleanupOutline (ops t)))
   \<and> prefix (steps (mainLog (logSince w (snd (Create env t p cfg w))))) (createOrder p)
   \<and> (\<forall>s e. (s, Some e) \<in> set (outline (mainLog (logSince w (snd (Create env t p cfg w))))) \<longrightarrow>
         last (outline (mainLog (logSince w (snd (Create env t p cfg w))))) = (s, Some e)
         \<and> (\<exists>ci. fst (Create env t p cfg w) = Return (ci, Some (returnedError s e)))
         \<and> (s \<noteq> ClusterInfoFromFile \<longrightarrow>
              fst (Create env t p cfg w) = Return (None, Some (returnedError s e))))
   \<and> (\<forall>ci err. fst (Create env t p cfg w) = Return (Some ci, err) \<longrightarrow>
         (TfInit, None) \<in> set (outline (mainLog (logSince w (snd (Create env t p cfg w)))))
         \<and> (TfApply, None) \<in> set (outline (mainLog (logSince w (snd (Create env t p cfg w)))))
         \<and> (\<exists>pr cl. cfg ''project'' = Some (VString pr) \<and> cfg ''cluster_name'' = Some (VString cl) \<and>
               step (last (mainLog (logSince w (snd (Create env t p cfg w))))) = ClusterInfoFromFile \<and>
               readClusterInfo env (fsAt (last (mainLog (logSince w (snd (Create env t p cfg w))))))
                 (DataDir (ops t), pr, cl, p) = (Some ci, err)))"
  by (rule conjI [OF Create_run_cases Create_log_shape])

theorem Create_fixed_order_witness:
  "fst (Create okEnv (operator False False) (OtherProvider ''gcp'') cfg0 emptyWorld) =
     Return (Some (ClusterInfo ''https://c1.p1.example''), None)
   \<and> outline (logSince emptyWorld
        (snd (Create okEnv (operator False False) (OtherProvider ''gcp'') cfg0 emptyWorld))) =
       [(ClusterDir, None), (TfInit, None), (InitClusterFiles, None), (TfApply, None),
        (ClusterInfoFromFile, None), (Cleanup, None)]
   \<and> fst (Create applyFails (operator True True) Gardener cfg0 emptyWorld) =
       Return (None, Some (Err ''timeout''))
   \<and> outline (logSince emptyWorld
        (snd (Create applyFails (operator True True) Gardener cfg0 emptyWorld))) =
       [(ClusterDir, None), (InitGardenerProvider, None), (TfInit, None), (InitClusterFiles, None),
        (TfApply, Some (Err ''timeout''))]
   \<and> last (outline (mainLog (logSince emptyWorld
        (snd (Create applyFails (operator True True) Gardener cfg0 emptyWorld))))) =
       (TfApply, Some (Err ''timeout''))
   \<and> (TfInit, None) \<in> set (outline (mainLog (logSince emptyWorld
        (snd (Create okEnv (operator False False) (OtherProvider ''gcp'') cfg0 emptyWorld)))))"
proof -
  have h1: "cfg0 ''project'' = Some (VString ''p1'') \<and> cfg0 ''cluster_name'' = Some (VString ''c1'')
      \<and> (Verbose (ops (operator False False)) \<or> openDevNull okEnv = None)"
    by (simp add: cfg0_def okEnv_def)
  have h2: "cfg0 ''project'' = Some (VString ''p1'') \<and> cfg0 ''cluster_name'' = Some (VString ''c1'')
      \<and> (Verbose (ops (operator True True)) \<or> openDevNull applyFails = None)"
    by (simp add: cfg0_def operator_def)
  have s1: "setupSucceeds okEnv (OtherProvider ''gcp'') \<and> applyResult okEnv = None"
    by (simp add: setupSucceeds_def okEnv_def)
  have s2: "setupSucceeds applyFails Gardener \<and> applyResult applyFails = Some (Err ''timeout'')"
    by (simp add: setupSucceeds_def applyFails_def okEnv_def)
  note T1 = Create_fixed_order [where cfg = cfg0 and pr = "''p1''" and cl = "''c1''"
      and t = "operator False False" and env = okEnv and w = emptyWorld
      and p = "OtherProvider ''gcp''"]
  note T2 = Create_fixed_order [where cfg = cfg0 and pr = "''p1''" and cl = "''c1''"
      and t = "operator True True" and env = applyFails and e = "Err ''timeout''"
      and w = emptyWorld and p = Gardener]
  note a = T1 [THEN conjunct1, rule_format, OF h1, THEN conjunct2, THEN conjunct2, THEN conjunct2,
      THEN conjunct2, THEN conjunct2, rule_format, OF s1]
  note b = T2 [THEN conjunct1, rule_format, OF h2, THEN conjunct2, THEN conjunct2, THEN conjunct2,
      THEN conjunct2, THEN conjunct1, rule_format, OF s2]
  from a have r: "fst (Create okEnv (operator False False) (OtherProvider ''gcp'') cfg0 emptyWorld) =
      Return (Some (ClusterInfo ''https://c1.p1.example''), None)"
    by (simp add: okEnv_def)
  from b have m: "(TfApply, Some (Err ''timeout'')) \<in> set (outline (mainLog (logSince emptyWorld
      (snd (Create applyFails (operator True True) Gardener cfg0 emptyWorld)))))"
    by simp
  note c = T2 [THEN conjunct2, THEN conjunct2, THEN conjunct1, rule_format, OF m, THEN conjunct1]
  note d = T1 [THEN conjunct2, THEN conjunct2, THEN conjunct2, rule_format, OF r, THEN conjunct1]
  from a b c d show ?thesis
    by (simp add: okEnv_def setupOutline_def bootOutline_def cleanupOutline_def operator_def)
qed

text \<open>
  C4, where the specification differs: a read that returns a ClusterInfo together with an
  error makes \<^verbatim>\<open>Create\<close> return both, the failure of that step does not come with a nil
  ClusterInfo.
\<close>

theorem read_failure_counterexample:
  "(ClusterInfoFromFile, Some (Err ''output is incomplete'')) \<in> set (outline (logSince emptyWorld
      (snd (Create readerBoth (operator True True) Gardener cfg0 emptyWorld))))
   \<and> fst (Create readerBoth (operator True True) Gardener cfg0 emptyWorld) =
       Return (Some (ClusterInfo ''https://c1.p1.example''), Some (Err ''output is incomplete''))"
  by (simp add: eval_defs)

subsection \<open>Delete: the state artifact\<close>

lemma Delete_needs_open:
  assumes "x \<in> set (logSince w (snd (Delete env t sf p cfg w)))"
  shows "openDevNull env = None"
proof (rule ccontr)
  assume "openDevNull env \<noteq> None"
  then obtain e where "openDevNull env = Some e" by auto
  then have "logSince w (snd (Delete env t sf p cfg w)) = []" by (rule Delete_open_fails_log)
  with assms show False by simp
qed

lemma in_outlineD: "(s, r) \<in> set (outline L) \<Longrightarrow> \<exists>ev. ev \<in> set L"
  by (auto simp: outline_def)

lemma Delete_without_state_log:
  assumes "(StateFromFile, Some e) \<in> set (outline (logSince w (snd (Delete env t None p cfg w))))"
  shows "fst (Delete env t None p cfg w) =
           Return (Some (Wrap e ''no state provided, attempted to load from file''))
         \<and> TfDestroy \<notin> set (steps (logSince w (snd (Delete env t None p cfg w))))"
proof -
  from assms obtain x where "x \<in> set (logSince w (snd (Delete env t None p cfg w)))"
    using in_outlineD by blast
  then have ok: "openDevNull env = None" by (rule Delete_needs_open)
  let ?o = "withTimeouts env cfg (ops t)" and ?w = "entry True w"
  from assms have "(StateFromFile, Some e) \<in> set (outline (mainLog (logSince w (snd (Delete env t None p cfg w)))))"
    by simp
  then have "(StateFromFile, Some e) \<in> set (outline (logSince ?w (snd (Delete_steps env ?o None p cfg ?w))))"
    by (simp add: Delete_mainLog [OF ok])
  note r = Delete_steps_load_fails [of e ?w env ?o p cfg, rule_format, OF this]
  have "TfDestroy \<notin> set (steps (mainLog (logSince w (snd (Delete env t None p cfg w)))))"
    using r by (simp add: Delete_mainLog [OF ok])
  then have "TfDestroy \<notin> set (steps (logSince w (snd (Delete env t None p cfg w))))"
    by simp
  with r show ?thesis by (simp add: Delete_fst [OF ok])
qed

lemma Delete_outline:
  assumes "cfg ''project'' = Some (VString pr)" and "cfg ''cluster_name'' = Some (VString cl)"
    and ok: "openDevNull env = None"
  shows "outline (logSince w (snd (Delete env t sf p cfg w))) =
     outline (logSince (entry True w)
       (snd (Delete_steps env (withTimeouts env cfg (ops t)) sf p cfg (entry True w))))
     @ cleanupOutline (ops t)"
  using assms(1,2) by (simp add: Delete_log [OF ok] outline_def cleanupOutline_def)

lemma Delete_run:
  assumes id: "cfg ''project'' = Some (VString pr)" "cfg ''cluster_name'' = Some (VString cl)"
    and ok: "openDevNull env = None"
    and pre: "setupSucceeds env p"
  shows "readState (fsAfterSetup env (DataDir (ops t), pr, cl, p) (fs w)) (DataDir (ops t), pr, cl, p) = Inl e \<Longrightarrow>
      fst (Delete env t None p cfg w) =
        Return (Some (Wrap e ''no state provided, attempted to load from file'')) \<and>
      outline (logSince w (snd (Delete env t None p cfg w))) =
        setupOutline p @ [(StateFromFile, Some e)] @ cleanupOutline (ops t)"
    and "writeState env = Some e \<Longrightarrow>
      fst (Delete env t (Some f) p cfg w) =
        Return (Some (Wrap e ''could not store state into file'')) \<and>
      outline (logSince w (snd (Delete env t (Some f) p cfg w))) =
        setupOutline p @ [(StateToFile, Some e)] @ cleanupOutline (ops t)"
    and "writeState env = None \<Longrightarrow>
      fst (Delete env t (Some f) p cfg w) = Return (destroyResult env) \<and>
      outline (logSince w (snd (Delete env t (Some f) p cfg w))) =
        setupOutline p @ [(StateToFile, None), (TfDestroy, destroyResult env)] @ cleanupOutline (ops t) \<and>
      fsAt (last (mainLog (logSince w (snd (Delete env t (Some f) p cfg w))))) =
        (fsAfterSetup env (DataDir (ops t), pr, cl, p) (fs w))
          \<lparr>stateFiles := (stateFiles (fsAfterSetup env (DataDir (ops t), pr, cl, p) (fs w)))
             ((DataDir (ops t), pr, cl, p) \<mapsto> Valid f)\<rparr>"
  using Delete_steps_state_run [OF id pre, where o' = "withTimeouts env cfg (ops t)"
      and w = "entry True w"]
  by (simp_all add: Delete_fst [OF ok] Delete_outline [OF id ok] Delete_mainLog [OF ok])

lemma Delete_load_run:
  assumes id: "cfg ''project'' = Some (VString pr)" "cfg ''cluster_name'' = Some (VString cl)"
    and ok: "openDevNull env = None"
    and pre: "setupSucceeds env p"
    and load: "readState (fsAfterSetup env (DataDir (ops t), pr, cl, p) (fs w)) (DataDir (ops t), pr, cl, p) = Inl e"
  shows "fst (Delete env t None p cfg w) =
        Return (Some (Wrap e ''no state provided, attempted to load from file''))"
    and "outline (logSince w (snd (Delete env t None p cfg w))) =
        setupOutline p @ [(StateFromFile, Some e)] @ cleanupOutline (ops t)"
    and "TfDestroy \<notin> set (steps (logSince w (snd (Delete env t None p cfg w))))"
proof -
  note r = Delete_run(1) [OF id ok pre load]
  from r show "fst (Delete env t None p cfg w) =
        Return (Some (Wrap e ''no state provided, attempted to load from file''))" by simp
  from r show o: "outline (logSince w (snd (Delete env t None p cfg w))) =
        setupOutline p @ [(StateFromFile, Some e)] @ cleanupOutline (ops t)" by simp
  then have "(StateFromFile, Some e) \<in> set (outline (logSince w (snd (Delete env t None p cfg w))))"
    by simp
  then show "TfDestroy \<notin> set (steps (logSince w (snd (Delete env t None p cfg w))))"
    using Delete_without_state_log by blast
qed

text \<open>
  C2. Take a \<^verbatim>\<open>Delete\<close> without a state artifact whose null device opened, on a
  configuration with the strings \<open>project\<close> and \<open>cluster_name\<close>, and let workspace
  resolution, bootstrap, engine init and config materialization succeed. Then the load from
  the workspace is called, and when it fails with \<open>e\<close> (no state file in the workspace, or
  one that cannot be parsed), \<^verbatim>\<open>Delete\<close> returns \<open>e\<close> wrapped with "no state provided,
  attempted to load from file", the load is the last call before the deferred cleanup, and
  the destroy verb of the engine is not called. In every \<^verbatim>\<open>Delete\<close> without artifact, a
  failed load in the log comes with that result and without destroy.
\<close>

theorem Delete_without_state:
  "(cfg ''project'' = Some (VString pr) \<and> cfg ''cluster_name'' = Some (VString cl)
      \<and> openDevNull env = None \<and> setupSucceeds env p
      \<and> readState (fsAfterSetup env (DataDir (ops t), pr, cl, p) (fs w))
            (DataDir (ops t), pr, cl, p) = Inl e \<longrightarrow>
      fst (Delete env t None p cfg w) =
        Return (Some (Wrap e ''no state provided, attempted to load from file''))
      \<and> outline (logSince w (snd (Delete env t None p cfg w))) =
          setupOutline p @ [(StateFromFile, Some e)] @ cleanupOutline (ops t)
      \<and> TfDestroy \<notin> set (steps (logSince w (snd (Delete env t None p cfg w)))))
   \<and> ((StateFromFile, Some e) \<in> set (outline (logSince w (snd (Delete env t None p cfg w)))) \<longrightarrow>
      fst (Delete env t None p cfg w) =
        Return (Some (Wrap e ''no state provided, attempted to load from file''))
      \<and> TfDestroy \<notin> set (steps (logSince w (snd (Delete env t None p cfg w)))))"
  by (intro conjI impI; (elim conjE)?; simp add: Delete_load_run Delete_without_state_log)

theorem Delete_without_state_witness:
  "readState (fsAfterSetup okEnv (''data'', ''p1'', ''c1'', OtherProvider ''gcp'') (fs emptyWorld))
      (''data'', ''p1'', ''c1'', OtherProvider ''gcp'') = Inl (Err ''state file does not exist'')
   \<and> fst (Delete okEnv (operator False False) None (OtherProvider ''gcp'') cfg0 emptyWorld) =
       Return (Some (Wrap (Err ''state file does not exist'')
         ''no state provided, attempted to load from file''))
   \<and> outline (logSince emptyWorld
        (snd (Delete okEnv (operator False False) None (OtherProvider ''gcp'') cfg0 emptyWorld))) =
       [(ClusterDir, None), (TfInit, None), (InitClusterFiles, None),
        (StateFromFile, Some (Err ''state file does not exist'')), (Cleanup, None)]
   \<and> TfDestroy \<notin> set (steps (logSince emptyWorld
        (snd (Delete okEnv (operator False False) None (OtherProvider ''gcp'') cfg0 emptyWorld))))
   \<and> (StateFromFile, Some (Err ''state file does not exist'')) \<in>
       set (outline (logSince emptyWorld (snd (Delete okEnv (operator True True) None Gardener cfg0 emptyWorld))))
   \<and> fst (Delete okEnv (operator True True) None Gardener cfg0 emptyWorld) =
       Return (Some (Wrap (Err ''state file does not exist'')
         ''no state provided, attempted to load from file''))"
proof -
  have h: "cfg0 ''project'' = Some (VString ''p1'') \<and> cfg0 ''cluster_name'' = Some (VString ''c1'')
      \<and> openDevNull okEnv = None \<and> setupSucceeds okEnv (OtherProvider ''gcp'')
      \<and> readState (fsAfterSetup okEnv (DataDir (ops (operator False False)), ''p1'', ''c1'',
              OtherProvider ''gcp'') (fs emptyWorld))
            (DataDir (ops (operator False False)), ''p1'', ''c1'', OtherProvider ''gcp'') =
          Inl (Err ''state file does not exist'')"
    by (simp add: eval_defs)
  have m: "(StateFromFile, Some (Err ''state file does not exist'')) \<in>
     set (outline (logSince emptyWorld (snd (Delete okEnv (operator True True) None Gardener cfg0 emptyWorld))))"
    by (simp add: eval_defs)
  note a = Delete_without_state [where cfg = cfg0 and pr = "''p1''" and cl = "''c1''"
      and t = "operator False False" and env = okEnv and w = emptyWorld
      and p = "OtherProvider ''gcp''" and e = "Err ''state file does not exist''",
      THEN conjunct1, rule_format, OF h]
  note b = Delete_without_state [where cfg = cfg0 and pr = "''p1''" and cl = "''c1''"
      and t = "operator True True" and env = okEnv and w = emptyWorld
      and p = Gardener and e = "Err ''state file does not exist''",
      THEN conjunct2, rule_format, OF m]
  from h a b m show ?thesis
    by (simp add: setupOutline_def bootOutline_def cleanupOutline_def operator_def)
qed

lemma Delete_with_state_log:
  "(\<forall>ev \<in> set (mainLog (logSince w (snd (Delete env t (Some f) p cfg w)))). step ev = TfDestroy \<longrightarrow>
      (StateToFile, None) \<in> set (outline (takeWhile (\<lambda>x. step x \<noteq> TfDestroy)
         (mainLog (logSince w (snd (Delete env t (Some f) p cfg w))))))
      \<and> (\<exists>pr cl. cfg ''project'' = Some (VString pr) \<and> cfg ''cluster_name'' = Some (VString cl) \<and>
            stateFiles (fsAt ev) (DataDir (ops t), pr, cl, p) = Some (Valid f)))
   \<and> (\<forall>e. (StateToFile, Some e) \<in> set (outline (logSince w (snd (Delete env t (Some f) p cfg w)))) \<longrightarrow>
         fst (Delete env t (Some f) p cfg w) = Return (Some (Wrap e ''could not store state into file''))
         \<and> TfDestroy \<notin> set (steps (logSince w (snd (Delete env t (Some f) p cfg w)))))"
proof (intro conjI ballI allI impI)
  fix ev
  assume ev: "ev \<in> set (mainLog (logSince w (snd (Delete env t (Some f) p cfg w))))"
    and d: "step ev = TfDestroy"
  from ev have "ev \<in> set (logSince w (snd (Delete env t (Some f) p cfg w)))"
    by (simp add: mainLog_def)
  then have ok: "openDevNull env = None" by (rule Delete_needs_open)
  let ?o = "withTimeouts env cfg (ops t)" and ?w = "entry True w"
  from ev have "ev \<in> set (logSince ?w (snd (Delete_steps env ?o (Some f) p cfg ?w)))"
    by (simp add: Delete_mainLog [OF ok])
  note r = Delete_steps_stored_before_destroy [of ?w env ?o f p cfg, rule_format, OF this d]
  show "(StateToFile, None) \<in> set (outline (takeWhile (\<lambda>x. step x \<noteq> TfDestroy)
         (mainLog (logSince w (snd (Delete env t (Some f) p cfg w))))))"
    using r by (simp add: Delete_mainLog [OF ok])
  show "\<exists>pr cl. cfg ''project'' = Some (VString pr) \<and> cfg ''cluster_name'' = Some (VString cl) \<and>
            stateFiles (fsAt ev) (DataDir (ops t), pr, cl, p) = Some (Valid f)"
    using r by simp
next
  fix e
  assume m: "(StateToFile, Some e) \<in> set (outline (logSince w (snd (Delete env t (Some f) p cfg w))))"
  then obtain x where "x \<in> set (logSince w (snd (Delete env t (Some f) p cfg w)))"
    using in_outlineD by blast
  then have ok: "openDevNull env = None" by (rule Delete_needs_open)
  let ?o = "withTimeouts env cfg (ops t)" and ?w = "entry True w"
  from m have "(StateToFile, Some e) \<in> set (outline (mainLog (logSince w (snd (Delete env t (Some f) p cfg w)))))"
    by simp
  then have "(StateToFile, Some e) \<in> set (outline (logSince ?w (snd (Delete_steps env ?o (Some f) p cfg ?w))))"
    by (simp add: Delete_mainLog [OF ok])
  note r = Delete_steps_store_fails [of e ?w env ?o f p cfg, rule_format, OF this]
  have "TfDestroy \<notin> set (steps (mainLog (logSince w (snd (Delete env t (Some f) p cfg w)))))"
    using r by (simp add: Delete_mainLog [OF ok])
  then show "TfDestroy \<notin> set (steps (logSince w (snd (Delete env t (Some f) p cfg w))))"
    by simp
  from r show "fst (Delete env t (Some f) p cfg w) = Return (Some (Wrap e ''could not store state into file''))"
    by (simp add: Delete_fst [OF ok])
qed

lemma Delete_store_run:
  assumes id: "cfg ''project'' = Some (VString pr)" "cfg ''cluster_name'' = Some (VString cl)"
    and ok: "openDevNull env = None"
    and pre: "setupSucceeds env p"
  shows "writeState env = None \<Longrightarrow>
      fst (Delete env t (Some f) p cfg w) = Return (destroyResult env)"
    and "writeState env = None \<Longrightarrow>
      outline (logSince w (snd (Delete env t (Some f) p cfg w))) =
        setupOutline p @ [(StateToFile, None), (TfDestroy, destroyResult env)] @ cleanupOutline (ops t)"
    and "writeState env = None \<Longrightarrow>
      fsAt (last (mainLog (logSince w (snd (Delete env t (Some f) p cfg w))))) =
        (fsAfterSetup env (DataDir (ops t), pr, cl, p) (fs w))
          \<lparr>stateFiles := (stateFiles (fsAfterSetup env (DataDir (ops t), pr, cl, p) (fs w)))
             ((DataDir (ops t), pr, cl, p) \<mapsto> Valid f)\<rparr>"
    and "writeState env = Some e \<Longrightarrow>
      fst (Delete env t (Some f) p cfg w) =
        Return (Some (Wrap e ''could not store state into file''))"
    and "writeState env = Some e \<Longrightarrow>
      outline (logSince w (snd (Delete env t (Some f) p cfg w))) =
        setupOutline p @ [(StateToFile, Some e)] @ cleanupOutline (ops t)"
  using Delete_run(2,3) [OF id ok pre] by simp_all

text \<open>
  C3. Take a \<^verbatim>\<open>Delete\<close> with a state artifact whose null device opened, on a
  configuration with the strings \<open>project\<close> and \<open>cluster_name\<close>, and let workspace
  resolution, bootstrap, engine init and config materialization succeed. Then
  \<^verbatim>\<open>stateToFile\<close> is called with the artifact. When it succeeds, the destroy verb of the
  engine is called next, on a file system whose state file of the workspace holds the
  artifact, and \<^verbatim>\<open>Delete\<close> returns what destroy returns. When it fails with \<open>e\<close>,
  \<^verbatim>\<open>Delete\<close> returns \<open>e\<close> wrapped with "could not store state into file" and destroy is
  not called. In every \<^verbatim>\<open>Delete\<close> with an artifact, a destroy in the log comes after a
  successful \<^verbatim>\<open>stateToFile\<close> and starts with the artifact in the state file, and a failed
  \<^verbatim>\<open>stateToFile\<close> in the log comes with that error and without destroy.
\<close>

theorem Delete_with_state:
  "(cfg ''project'' = Some (VString pr) \<and> cfg ''cluster_name'' = Some (VString cl)
      \<and> openDevNull env = None \<and> setupSucceeds env p \<longrightarrow>
      (writeState env = None \<longrightarrow>
         fst (Delete env t (Some f) p cfg w) = Return (destroyResult env)
         \<and> outline (logSince w (snd (Delete env t (Some f) p cfg w))) =
             setupOutline p @ [(StateToFile, None), (TfDestroy, destroyResult env)]
               @ cleanupOutline (ops t)
         \<and> fsAt (last (mainLog (logSince w (snd (Delete env t (Some f) p cfg w))))) =
             (fsAfterSetup env (DataDir (ops t), pr, cl, p) (fs w))
               \<lparr>stateFiles := (stateFiles (fsAfterSetup env (DataDir (ops t), pr, cl, p) (fs w)))
                  ((DataDir (ops t), pr, cl, p) \<mapsto> Valid f)\<rparr>)
      \<and> (writeState env = Some e' \<longrightarrow>
         fst (Delete env t (Some f) p cfg w) =
           Return (Some (Wrap e' ''could not store state into file''))
         \<and> outline (logSince w (snd (Delete env t (Some f) p cfg w))) =
             setupOutline p @ [(StateToFile, Some e')] @ cleanupOutline (ops t)))
   \<and> (\<forall>ev \<in> set (mainLog (logSince w (snd (Delete env t (Some f) p cfg w)))). step ev = TfDestroy \<longrightarrow>
      (StateToFile, None) \<in> set (outline (takeWhile (\<lambda>x. step x \<noteq> TfDestroy)
         (mainLog (logSince w (snd (Delete env t (Some f) p cfg w))))))
      \<and> (\<exists>pr cl. cfg ''project'' = Some (VString pr) \<and> cfg ''cluster_name'' = Some (VString cl) \<and>
            stateFiles (fsAt ev) (DataDir (ops t), pr, cl, p) = Some (Valid f)))
   \<and> (\<forall>e. (StateToFile, Some e) \<in> set (outline (logSince w (snd (Delete env t (Some f) p cfg w)))) \<longrightarrow>
         fst (Delete env t (Some f) p cfg w) = Return (Some (Wrap e ''could not store state into file''))
         \<and> TfDestroy \<notin> set (steps (logSince w (snd (Delete env t (Some f) p cfg w)))))"
  apply (rule conjI)
  subgoal by (intro conjI impI; (elim conjE)?; simp add: Delete_store_run)
  subgoal by (rule Delete_with_state_log)
  done

theorem Delete_with_state_witness:
  "fst (Delete okEnv (operator False True) (Some state1) (OtherProvider ''gcp'') cfg0 emptyWorld) = Return None
   \<and> outline (logSince emptyWorld
        (snd (Delete okEnv (operator False True) (Some state1) (OtherProvider ''gcp'') cfg0 emptyWorld))) =
       [(ClusterDir, None), (TfInit, None), (InitClusterFiles, None), (StateToFile, None),
        (TfDestroy, None)]
   \<and> stateFiles (fsAt (last (mainLog (logSince emptyWorld
        (snd (Delete okEnv (operator False True) (Some state1) (OtherProvider ''gcp'') cfg0 emptyWorld))))))
        (''data'', ''p1'', ''c1'', OtherProvider ''gcp'') = Some (Valid state1)
   \<and> fst (Delete storeFails (operator False True) (Some state1) Gardener cfg0 emptyWorld) =
        Return (Some (Wrap (Err ''disk full'') ''could not store state into file''))
   \<and> step (last (mainLog (logSince emptyWorld
        (snd (Delete okEnv (operator False True) (Some state1) Gardener cfg0 emptyWorld))))) = TfDestroy
   \<and> (StateToFile, None) \<in> set (outline (takeWhile (\<lambda>x. step x \<noteq> TfDestroy)
        (mainLog (logSince emptyWorld
          (snd (Delete okEnv (operator False True) (Some state1) Gardener cfg0 emptyWorld))))))
   \<and> TfDestroy \<notin> set (steps (logSince emptyWorld
        (snd (Delete storeFails (operator False True) (Some state1) Gardener cfg0 emptyWorld))))"
proof -
  let ?L = "mainLog (logSince emptyWorld
      (snd (Delete okEnv (operator False True) (Some state1) Gardener cfg0 emptyWorld)))"
  have h1: "cfg0 ''project'' = Some (VString ''p1'') \<and> cfg0 ''cluster_name'' = Some (VString ''c1'')
      \<and> openDevNull okEnv = None \<and> setupSucceeds okEnv (OtherProvider ''gcp'')"
    by (simp add: eval_defs)
  have h2: "cfg0 ''project'' = Some (VString ''p1'') \<and> cfg0 ''cluster_name'' = Some (VString ''c1'')
      \<and> openDevNull storeFails = None \<and> setupSucceeds storeFails Gardener"
    by (simp add: eval_defs)
  have w1: "writeState okEnv = None" and w2: "writeState storeFails = Some (Err ''disk full'')"
    by (simp_all add: okEnv_def storeFails_def)
  have ev: "last ?L \<in> set ?L" by (simp add: eval_defs)
  have d: "step (last ?L) = TfDestroy" by (simp add: eval_defs)
  note a = Delete_with_state [where cfg = cfg0 and pr = "''p1''" and cl = "''c1''"
      and t = "operator False True" and env = okEnv and w = emptyWorld and f = state1
      and p = "OtherProvider ''gcp''", THEN conjunct1, rule_format, OF h1, THEN conjunct1,
      rule_format, OF w1]
  note b = Delete_with_state [where cfg = cfg0 and pr = "''p1''" and cl = "''c1''"
      and t = "operator False True" and env = storeFails and w = emptyWorld and f = state1
      and p = Gardener and e' = "Err ''disk full''", THEN conjunct1, rule_format, OF h2,
      THEN conjunct2, rule_format, OF w2]
  from b have m: "(StateToFile, Some (Err ''disk full'')) \<in> set (outline (logSince emptyWorld
        (snd (Delete storeFails (operator False True) (Some state1) Gardener cfg0 emptyWorld))))"
    by simp
  note c = Delete_with_state [where cfg = cfg0 and t = "operator False True" and env = okEnv
      and w = emptyWorld and f = state1 and p = Gardener,
      THEN conjunct2, THEN conjunct1, rule_format, OF ev d]
  note e = Delete_with_state [where cfg = cfg0 and t = "operator False True" and env = storeFails
      and w = emptyWorld and f = state1 and p = Gardener,
      THEN conjunct2, THEN conjunct2, rule_format, OF m]
  from a b c d e show ?thesis
    by (simp add: okEnv_def setupOutline_def bootOutline_def cleanupOutline_def operator_def
        fsAfterSetup_def)
qed

subsection \<open>The provider bootstrap\<close>

lemma Create_needs_open:
  assumes "x \<in> set (logSince w (snd (Create env t p cfg w)))"
  shows "Verbose (ops t) \<or> openDevNull env = None"
proof (rule ccontr)
  assume "\<not> (Verbose (ops t) \<or> openDevNull env = None)"
  then obtain e where "\<not> Verbose (ops t)" "openDevNull env = Some e" by auto
  then have "logSince w (snd (Create env t p cfg w)) = []" by (rule Create_open_fails_log)
  with assms show False by simp
qed

lemma Create_bootstrap_fails:
  assumes m: "(InitGardenerProvider, Some e) \<in> set (outline (logSince w (snd (Create env t p cfg w))))"
  shows "p = Gardener \<and>
     fst (Create env t p cfg w) = Return (None, Some (Wrap e ''could not initialize the gardener provider''))
     \<and> TfInit \<notin> set (steps (logSince w (snd (Create env t p cfg w))))
     \<and> TfApply \<notin> set (steps (logSince w (snd (Create env t p cfg w))))
     \<and> TfDestroy \<notin> set (steps (logSince w (snd (Create env t p cfg w))))"
proof -
  from m obtain x where "x \<in> set (logSince w (snd (Create env t p cfg w)))"
    using in_outlineD by blast
  then have ok: "Verbose (ops t) \<or> openDevNull env = None" by (rule Create_needs_open)
  let ?o = "withTimeouts env cfg (ops t)" and ?w = "entry (\<not> Verbose (ops t)) w"
  from m have "(InitGardenerProvider, Some e) \<in> set (outline (mainLog (logSince w (snd (Create env t p cfg w)))))"
    by simp
  then have "(InitGardenerProvider, Some e) \<in> set (outline (logSince ?w (snd (Create_steps env ?o p cfg ?w))))"
    by (simp add: Create_mainLog [OF ok])
  note r = Create_steps_gardener [of e ?w env ?o p cfg, rule_format, OF this]
  have "TfInit \<notin> set (steps (mainLog (logSince w (snd (Create env t p cfg w)))))"
    and "TfApply \<notin> set (steps (mainLog (logSince w (snd (Create env t p cfg w)))))"
    and "TfDestroy \<notin> set (steps (mainLog (logSince w (snd (Create env t p cfg w)))))"
    using r by (auto simp add: Create_mainLog [OF ok])
  then have "TfInit \<notin> set (steps (logSince w (snd (Create env t p cfg w))))"
    and "TfApply \<notin> set (steps (logSince w (snd (Create env t p cfg w))))"
    and "TfDestroy \<notin> set (steps (logSince w (snd (Create env t p cfg w))))"
    by simp_all
  with r show ?thesis by (auto simp add: Create_fst [OF ok])
qed

lemma Delete_bootstrap_fails:
  assumes m: "(InitGardenerProvider, Some e) \<in> set (outline (logSince w (snd (Delete env t sf p cfg w))))"
  shows "p = Gardener \<and>
     fst (Delete env t sf p cfg w) = Return (Some (Wrap e ''could not initialize the gardener provider''))
     \<and> TfInit \<notin> set (steps (logSince w (snd (Delete env t sf p cfg w))))
     \<and> TfApply \<notin> set (steps (logSince w (snd (Delete env t sf p cfg w))))
     \<and> TfDestroy \<notin> set (steps (logSince w (snd (Delete env t sf p cfg w))))"
proof -
  from m obtain x where "x \<in> set (logSince w (snd (Delete env t sf p cfg w)))"
    using in_outlineD by blast
  then have ok: "openDevNull env = None" by (rule Delete_needs_open)
  let ?o = "withTimeouts env cfg (ops t)" and ?w = "entry True w"
  from m have "(InitGardenerProvider, Some e) \<in> set (outline (mainLog (logSince w (snd (Delete env t sf p cfg w)))))"
    by simp
  then have "(InitGardenerProvider, Some e) \<in> set (outline (logSince ?w (snd (Delete_steps env ?o sf p cfg ?w))))"
    by (simp add: Delete_mainLog [OF ok])
  note r = Delete_steps_gardener [of e ?w env ?o sf p cfg, rule_format, OF this]
  have "TfInit \<notin> set (steps (mainLog (logSince w (snd (Delete env t sf p cfg w)))))"
    and "TfApply \<notin> set (steps (mainLog (logSince w (snd (Delete env t sf p cfg w)))))"
    and "TfDestroy \<notin> set (steps (mainLog (logSince w (snd (Delete env t sf p cfg w)))))"
    using r by (auto simp add: Delete_mainLog [OF ok])
  then have "TfInit \<notin> set (steps (logSince w (snd (Delete env t sf p cfg w))))"
    and "TfApply \<notin> set (steps (logSince w (snd (Delete env t sf p cfg w))))"
    and "TfDestroy \<notin> set (steps (logSince w (snd (Delete env t sf p cfg w))))"
    by simp_all
  with r show ?thesis by (auto simp add: Delete_fst [OF ok])
qed

lemma bootstrap_failure_log:
  "((InitGardenerProvider, Some e) \<in> set (outline (logSince w (snd (Create env t p cfg w)))) \<longrightarrow>
      p = Gardener \<and>
      fst (Create env t p cfg w) = Return (None, Some (Wrap e ''could not initialize the gardener provider''))
      \<and> TfInit \<notin> set (steps (logSince w (snd (Create env t p cfg w))))
      \<and> TfApply \<notin> set (steps (logSince w (snd (Create env t p cfg w))))
      \<and> TfDestroy \<notin> set (steps (logSince w (snd (Create env t p cfg w)))))
   \<and> ((InitGardenerProvider, Some e) \<in> set (outline (logSince w (snd (Delete env t sf p cfg w)))) \<longrightarrow>
      p = Gardener \<and>
      fst (Delete env t sf p cfg w) = Return (Some (Wrap e ''could not initialize the gardener provider''))
      \<and> TfInit \<notin> set (steps (logSince w (snd (Delete env t sf p cfg w))))
      \<and> TfApply \<notin> set (steps (logSince w (snd (Delete env t sf p cfg w))))
      \<and> TfDestroy \<notin> set (steps (logSince w (snd (Delete env t sf p cfg w)))))"
  using Create_bootstrap_fails [of e w env t p cfg] Delete_bootstrap_fails [of e w env t sf p cfg]
  by (intro conjI impI) blast+

lemma bootstrap_run:
  assumes id: "cfg ''project'' = Some (VString pr)" "cfg ''cluster_name'' = Some (VString cl)"
    and g: "p = Gardener" and m: "mkdirAll env = None" and b: "gardenerInit env = Some e"
  shows "Verbose (ops t) \<or> openDevNull env = None \<Longrightarrow>
      fst (Create env t p cfg w) =
        Return (None, Some (Wrap e ''could not initialize the gardener provider'')) \<and>
      outline (logSince w (snd (Create env t p cfg w))) =
        [(ClusterDir, None), (InitGardenerProvider, Some e)] @ cleanupOutline (ops t)"
    and "openDevNull env = None \<Longrightarrow>
      fst (Delete env t sf p cfg w) =
        Return (Some (Wrap e ''could not initialize the gardener provider'')) \<and>
      outline (logSince w (snd (Delete env t sf p cfg w))) =
        [(ClusterDir, None), (InitGardenerProvider, Some e)] @ cleanupOutline (ops t)"
proof -
  assume ok: "Verbose (ops t) \<or> openDevNull env = None"
  show "fst (Create env t p cfg w) =
        Return (None, Some (Wrap e ''could not initialize the gardener provider'')) \<and>
      outline (logSince w (snd (Create env t p cfg w))) =
        [(ClusterDir, None), (InitGardenerProvider, Some e)] @ cleanupOutline (ops t)"
    by (rule Create_run(2) [OF id ok m g b])
next
  assume ok: "openDevNull env = None"
  from Delete_steps_setup_run [OF id m g b, where o' = "withTimeouts env cfg (ops t)"
      and w = "entry True w" and sf = sf]
  show "fst (Delete env t sf p cfg w) =
        Return (Some (Wrap e ''could not initialize the gardener provider'')) \<and>
      outline (logSince w (snd (Delete env t sf p cfg w))) =
        [(ClusterDir, None), (InitGardenerProvider, Some e)] @ cleanupOutline (ops t)"
    by (simp add: Delete_fst [OF ok] Delete_outline [OF id ok])
qed

text \<open>
  C8, as the code has it. Take a \<^verbatim>\<open>Create\<close> or a \<^verbatim>\<open>Delete\<close> for the Gardener provider
  that reaches its steps (string keys, standard error redirected or, for \<^verbatim>\<open>Create\<close>, a
  verbose operator) and whose workspace resolution succeeds. Then the bootstrap hook is
  called, and when it fails with \<open>e\<close> the operation returns \<open>e\<close> wrapped with "could not
  initialize the gardener provider"; the hook is the last call before the deferred cleanup,
  so no verb of the engine (init, apply, destroy) is called. In every \<^verbatim>\<open>Create\<close> and
  \<^verbatim>\<open>Delete\<close>, a failed hook in the log means a Gardener call with that result and without
  any verb of the engine.
\<close>

theorem bootstrap_failure_aborts:
  "(cfg ''project'' = Some (VString pr) \<and> cfg ''cluster_name'' = Some (VString cl)
      \<and> p = Gardener \<and> mkdirAll env = None \<and> gardenerInit env = Some e \<longrightarrow>
      (Verbose (ops t) \<or> openDevNull env = None \<longrightarrow>
         fst (Create env t p cfg w) =
           Return (None, Some (Wrap e ''could not initialize the gardener provider''))
         \<and> outline (logSince w (snd (Create env t p cfg w))) =
             [(ClusterDir, None), (InitGardenerProvider, Some e)] @ cleanupOutline (ops t))
      \<and> (openDevNull env = None \<longrightarrow>
         fst (Delete env t sf p cfg w) =
           Return (Some (Wrap e ''could not initialize the gardener provider''))
         \<and> outline (logSince w (snd (Delete env t sf p cfg w))) =
             [(ClusterDir, None), (InitGardenerProvider, Some e)] @ cleanupOutline (ops t)))
   \<and> ((InitGardenerProvider, Some e) \<in> set (outline (logSince w (snd (Create env t p cfg w)))) \<longrightarrow>
      p = Gardener \<and>
      fst (Create env t p cfg w) = Return (None, Some (Wrap e ''could not initialize the gardener provider''))
      \<and> TfInit \<notin> set (steps (logSince w (snd (Create env t p cfg w))))
      \<and> TfApply \<notin> set (steps (logSince w (snd (Create env t p cfg w))))
      \<and> TfDestroy \<notin> set (steps (logSince w (snd (Create env t p cfg w)))))
   \<and> ((InitGardenerProvider, Some e) \<in> set (outline (logSince w (snd (Delete env t sf p cfg w)))) \<longrightarrow>
      p = Gardener \<and>
      fst (Delete env t sf p cfg w) = Return (Some (Wrap e ''could not initialize the gardener provider''))
      \<and> TfInit \<notin> set (steps (logSince w (snd (Delete env t sf p cfg w))))
      \<and> TfApply \<notin> set (steps (logSince w (snd (Delete env t sf p cfg w))))
      \<and> TfDestroy \<notin> set (steps (logSince w (snd (Delete env t sf p cfg w)))))"
  apply (rule conjI)
  subgoal by (intro conjI impI; (elim conjE)?; simp add: bootstrap_run)
  subgoal by (rule bootstrap_failure_log)
  done

theorem bootstrap_failure_aborts_witness:
  "fst (Create bootstrapFails (operator True True) Gardener cfg0 emptyWorld) =
       Return (None, Some (Wrap (Err ''no credentials'') ''could not initialize the gardener provider''))
   \<and> outline (logSince emptyWorld
        (snd (Create bootstrapFails (operator True True) Gardener cfg0 emptyWorld))) =
       [(ClusterDir, None), (InitGardenerProvider, Some (Err ''no credentials''))]
   \<and> fst (Delete bootstrapFails (operator False False) None Gardener cfg0 emptyWorld) =
       Return (Some (Wrap (Err ''no credentials'') ''could not initialize the gardener provider''))
   \<and> outline (logSince emptyWorld
        (snd (Delete bootstrapFails (operator False False) None Gardener cfg0 emptyWorld))) =
       [(ClusterDir, None), (InitGardenerProvider, Some (Err ''no credentials'')), (Cleanup, None)]
   \<and> TfInit \<notin> set (steps (logSince emptyWorld
       (snd (Create bootstrapFails (operator True True) Gardener cfg0 emptyWorld))))
   \<and> TfDestroy \<notin> set (steps (logSince emptyWorld
       (snd (Delete bootstrapFails (operator False False) None Gardener cfg0 emptyWorld))))"
proof -
  have h: "cfg0 ''project'' = Some (VString ''p1'') \<and> cfg0 ''cluster_name'' = Some (VString ''c1'')
      \<and> Gardener = Gardener \<and> mkdirAll bootstrapFails = None
      \<and> gardenerInit bootstrapFails = Some (Err ''no credentials'')"
    by (simp add: eval_defs)
  have o1: "Verbose (ops (operator True True)) \<or> openDevNull bootstrapFails = None"
    and o2: "openDevNull bootstrapFails = None"
    by (simp_all add: eval_defs)
  note a = bootstrap_failure_aborts [where cfg = cfg0 and pr = "''p1''" and cl = "''c1''"
      and t = "operator True True" and env = bootstrapFails and w = emptyWorld and p = Gardener
      and e = "Err ''no credentials''" and sf = None,
      THEN conjunct1, rule_format, OF h, THEN conjunct1, rule_format, OF o1]
  note b = bootstrap_failure_aborts [where cfg = cfg0 and pr = "''p1''" and cl = "''c1''"
      and t = "operator False False" and env = bootstrapFails and w = emptyWorld and p = Gardener
      and e = "Err ''no credentials''" and sf = None,
      THEN conjunct1, rule_format, OF h, THEN conjunct2, rule_format, OF o2]
  from a have c: "(InitGardenerProvider, Some (Err ''no credentials'')) \<in> set (outline (logSince emptyWorld
      (snd (Create bootstrapFails (operator True True) Gardener cfg0 emptyWorld))))"
    by simp
  from b have d: "(InitGardenerProvider, Some (Err ''no credentials'')) \<in> set (outline (logSince emptyWorld
      (snd (Delete bootstrapFails (operator False False) None Gardener cfg0 emptyWorld))))"
    by simp
  note a' = bootstrap_failure_aborts [where t = "operator True True" and env = bootstrapFails
      and w = emptyWorld and p = Gardener and cfg = cfg0 and e = "Err ''no credentials''"
      and sf = None, THEN conjunct2, THEN conjunct1, rule_format, OF c]
  note b' = bootstrap_failure_aborts [where t = "operator False False" and env = bootstrapFails
      and w = emptyWorld and p = Gardener and cfg = cfg0 and e = "Err ''no credentials''"
      and sf = None, THEN conjunct2, THEN conjunct2, rule_format, OF d]
  from a b a' b' show ?thesis by (simp add: cleanupOutline_def operator_def)
qed

text \<open>
  C8, where the specification differs: the error is not wrapped with "provider initialization
  failed".
\<close>

theorem bootstrap_message_counterexample:
  "(InitGardenerProvider, Some (Err ''no credentials'')) \<in> set (outline (logSince emptyWorld
      (snd (Create bootstrapFails (operator True True) Gardener cfg0 emptyWorld))))
   \<and> fst (Create bootstrapFails (operator True True) Gardener cfg0 emptyWorld) \<noteq>
       Return (None, Some (Wrap (Err ''no credentials'') ''provider initialization failed''))"
  by (simp add: eval_defs)

subsection \<open>The deferred cleanup\<close>

lemma removeWorkspace_dirs [simp]: "ws \<notin> dirs (removeWorkspace ws f)"
  by (simp add: removeWorkspace_def)








subsection \<open>The identity keys of the configuration\<close>

lemma Create_Panic:
  "(fst (Create env t p cfg w) = Panic) =
     ((Verbose (ops t) \<or> openDevNull env = None) \<and>
      (assertString (cfg ''project'') = None \<or> assertString (cfg ''cluster_name'') = None))"
proof (cases "Verbose (ops t) \<or> openDevNull env = None")
  case True
  then show ?thesis by (simp add: Create_fst Create_steps_Panic)
next
  case False
  then obtain e where "\<not> Verbose (ops t)" "openDevNull env = Some e" by auto
  then show ?thesis by (simp add: Create_open_fails)
qed

lemma Delete_Panic:
  "(fst (Delete env t sf p cfg w) = Panic) =
     (openDevNull env = None \<and>
      (assertString (cfg ''project'') = None \<or> assertString (cfg ''cluster_name'') = None))"
proof (cases "openDevNull env")
  case None
  then show ?thesis by (simp add: Delete_fst Delete_steps_Panic)
next
  case (Some e)
  then show ?thesis by (simp add: Delete_open_fails)
qed

lemma Status_Panic:
  "(fst (Status env t None p cfg w) = Panic) =
     (assertString (cfg ''project'') = None \<or> assertString (cfg ''cluster_name'') = None)"
  "fst (Status env t (Some f) p cfg w) \<noteq> Panic"
  by (simp_all add: Status_def Let_def split_beta split: option.split sum.split)

text \<open>
  C10, as the code has it. A key of the configuration that is absent or not a string makes
  the type assertion fail. \<^verbatim>\<open>Status\<close> without a state artifact panics exactly when
  \<open>project\<close> or \<open>cluster_name\<close> is such a key; \<^verbatim>\<open>Create\<close> and \<^verbatim>\<open>Delete\<close> panic exactly
  when, in addition, they got past the redirection of standard error, which comes before
  the first assertion. \<^verbatim>\<open>Status\<close> with a state artifact never reads the keys.
\<close>

theorem identity_keys_required:
  "(fst (Create env t p cfg w) = Panic) =
     ((Verbose (ops t) \<or> openDevNull env = None) \<and>
      (assertString (cfg ''project'') = None \<or> assertString (cfg ''cluster_name'') = None))
   \<and> (fst (Delete env t sf p cfg w) = Panic) =
     (openDevNull env = None \<and>
      (assertString (cfg ''project'') = None \<or> assertString (cfg ''cluster_name'') = None))
   \<and> (fst (Status env t None p cfg w) = Panic) =
     (assertString (cfg ''project'') = None \<or> assertString (cfg ''cluster_name'') = None)
   \<and> fst (Status env t (Some f) p cfg w) \<noteq> Panic
   \<and> (assertString v = None) = (\<forall>x. v \<noteq> Some (VString x))"
  by (intro conjI) (rule Create_Panic Delete_Panic Status_Panic assertString_None)+

theorem identity_keys_required_witness:
  "fst (Create okEnv (operator False False) Gardener (cfg0(''project'' := None)) emptyWorld) = Panic
   \<and> fst (Delete okEnv (operator False False) None Gardener (cfg0(''cluster_name'' \<mapsto> VInt 7)) emptyWorld) = Panic
   \<and> fst (Status okEnv (operator False False) None Gardener Map.empty emptyWorld) = Panic
   \<and> fst (Create okEnv (operator False False) Gardener cfg0 emptyWorld) \<noteq> Panic"
proof -
  have h: "openDevNull okEnv = None"
    "assertString ((cfg0(''project'' := None)) ''project'') = None"
    "assertString ((cfg0(''cluster_name'' \<mapsto> VInt 7)) ''cluster_name'') = None"
    "assertString (Map.empty ''project'') = None"
    "assertString (cfg0 ''project'') \<noteq> None" "assertString (cfg0 ''cluster_name'') \<noteq> None"
    by (simp_all add: okEnv_def cfg0_def assertString_def)
  note a = identity_keys_required [of okEnv "operator False False" Gardener "cfg0(''project'' := None)"
      emptyWorld None state1 None, THEN conjunct1]
  note b = identity_keys_required [of okEnv "operator False False" Gardener
      "cfg0(''cluster_name'' \<mapsto> VInt 7)" emptyWorld None state1 None, THEN conjunct2, THEN conjunct1]
  note c = identity_keys_required [of okEnv "operator False False" Gardener Map.empty
      emptyWorld None state1 None, THEN conjunct2, THEN conjunct2, THEN conjunct1]
  note d = identity_keys_required [of okEnv "operator False False" Gardener cfg0
      emptyWorld None state1 None, THEN conjunct1]
  from a b c d h show ?thesis by simp
qed

text \<open>
  C10, where the specification differs: when the null device cannot be opened, \<^verbatim>\<open>Create\<close>
  with no key at all in the configuration returns the error of the open and does not panic.
\<close>

theorem missing_keys_counterexample:
  "assertString (Map.empty ''project'') = None
   \<and> fst (Create openFails (operator False False) Gardener Map.empty emptyWorld) =
       Return (None, Some (Err ''too many open files''))"
  by (simp add: eval_defs)

subsection \<open>Standard error\<close>

lemma Delete_stderrAt:
  assumes "ev \<in> set (logSince w (snd (Delete env t sf p cfg w)))"
  shows "stderrAt ev = DevNull"
proof -
  have ok: "openDevNull env = None" using assms by (rule Delete_needs_open)
  from assms Delete_steps_stderrAt [of "entry True w" env "withTimeouts env cfg (ops t)" sf p cfg]
  show ?thesis by (auto simp add: Delete_log [OF ok] split: if_splits)
qed

lemma Create_stderrAt:
  assumes "ev \<in> set (logSince w (snd (Create env t p cfg w)))"
  shows "stderrAt ev = (if Verbose (ops t) then Stderr w else DevNull)"
proof -
  have ok: "Verbose (ops t) \<or> openDevNull env = None" using assms by (rule Create_needs_open)
  from assms Create_steps_stderrAt [of "entry (\<not> Verbose (ops t)) w" env "withTimeouts env cfg (ops t)" p cfg]
  show ?thesis by (auto simp add: Create_log [OF ok] split: if_splits)
qed

lemma Stderr_restored:
  "Verbose (ops t) \<or> openDevNull env = None \<Longrightarrow> Stderr (snd (Create env t p cfg w)) = Stderr w"
  "openDevNull env = None \<Longrightarrow> Stderr (snd (Delete env t sf p cfg w)) = Stderr w"
  by (auto simp add: Create_def Delete_def Let_def split_beta Create_deferred_Stderr)

lemma Stderr_left_nil:
  "\<not> Verbose (ops t) \<Longrightarrow> openDevNull env = Some e \<Longrightarrow> Stderr (snd (Create env t p cfg w)) = NilHandle"
  "openDevNull env = Some e \<Longrightarrow> Stderr (snd (Delete env t sf p cfg w)) = NilHandle"
  by (simp_all add: Create_open_fails Delete_open_fails)

text \<open>
  C7. \<^verbatim>\<open>Delete\<close> redirects standard error whatever \<open>verbose\<close> says: with
  \<open>verbose = true\<close>, every call of a \<^verbatim>\<open>Delete\<close> runs with \<^verbatim>\<open>os.Stderr\<close> on the null
  device, while every call of a \<^verbatim>\<open>Create\<close> of the same operator runs with the caller's
  standard error.
\<close>

theorem Delete_silences_verbose:
  "Verbose (ops (operator True True))
   \<and> map stderrAt (logSince emptyWorld
        (snd (Delete okEnv (operator True True) (Some state1) Gardener cfg0 emptyWorld))) =
       [DevNull, DevNull, DevNull, DevNull, DevNull, DevNull]
   \<and> map stderrAt (logSince emptyWorld
        (snd (Create okEnv (operator True True) Gardener cfg0 emptyWorld))) =
       [StdErr, StdErr, StdErr, StdErr, StdErr, StdErr]"
  by (simp add: eval_defs)

subsection \<open>Status\<close>

lemma HasResources_concat: "HasResources s = (concat (Modules s) \<noteq> [])"
  by (auto simp: HasResources_def list_ex_iff)

text \<open>
  C5. When the state artifact is available, supplied by the caller or loaded from the state
  file of the workspace, \<^verbatim>\<open>Status\<close> returns no error and a status whose phase is
  Provisioned if the artifact holds at least one resource and Unknown otherwise.
\<close>

theorem Status_phase:
  assumes "sf = Some f \<or>
    (sf = None \<and> cfg ''project'' = Some (VString pr) \<and> cfg ''cluster_name'' = Some (VString cl)
       \<and> fst (stateFromFile (DataDir (ops t)) pr cl p w) = Inr f)"
  shows "fst (Status env t sf p cfg w) =
     Return (Some \<lparr>Phase = (if concat (Modules (State f)) \<noteq> [] then Provisioned else Unknown)\<rparr>, None)"
  using assms
  by (auto simp add: Status_def Let_def split_beta HasResources_concat)

theorem Status_phase_witness:
  "fst (Status okEnv (operator False True) (Some state1) Gardener cfg0 emptyWorld) =
     Return (Some \<lparr>Phase = Provisioned\<rparr>, None)
   \<and> fst (Status okEnv (operator False True) (Some state0) Gardener cfg0 emptyWorld) =
     Return (Some \<lparr>Phase = Unknown\<rparr>, None)
   \<and> fst (Status okEnv (operator False True) None Gardener cfg0 usedWorld) =
     Return (Some \<lparr>Phase = Provisioned\<rparr>, None)"
proof -
  have h: "None = (None :: File option) \<and> cfg0 ''project'' = Some (VString ''p1'')
      \<and> cfg0 ''cluster_name'' = Some (VString ''c1'')
      \<and> fst (stateFromFile (DataDir (ops (operator False True))) ''p1'' ''c1'' Gardener usedWorld) = Inr state1"
    by (simp add: eval_defs)
  note a = Status_phase [of "Some state1" state1 cfg0 "''p1''" "''c1''" "operator False True"
      Gardener emptyWorld okEnv, OF disjI1, OF refl]
  note b = Status_phase [of "Some state0" state0 cfg0 "''p1''" "''c1''" "operator False True"
      Gardener emptyWorld okEnv, OF disjI1, OF refl]
  note c = Status_phase [of None state1 cfg0 "''p1''" "''c1''" "operator False True"
      Gardener usedWorld okEnv, OF disjI2, OF h]
  from a b c show ?thesis by (simp add: state1_def state0_def)
qed

text \<open>
  C6. In a \<^verbatim>\<open>Status\<close> without a state artifact, when the load from the workspace fails
  with \<open>e\<close>, \<^verbatim>\<open>Status\<close> returns a status (not nil) of phase Unknown together with \<open>e\<close>
  wrapped with "no state provided, attempted to load from file".
\<close>

theorem Status_load_fails:
  assumes "cfg ''project'' = Some (VString pr)" and "cfg ''cluster_name'' = Some (VString cl)"
    and "fst (stateFromFile (DataDir (ops t)) pr cl p w) = Inl e"
  shows "fst (Status env t None p cfg w) =
     Return (Some \<lparr>Phase = Unknown\<rparr>, Some (Wrap e ''no state provided, attempted to load from file''))"
  using assms by (simp add: Status_def Let_def split_beta)

theorem Status_load_fails_witness:
  "fst (stateFromFile (DataDir (ops (operator False True))) ''p1'' ''c1'' Gardener emptyWorld) =
     Inl (Err ''state file does not exist'')
   \<and> fst (Status okEnv (operator False True) None Gardener cfg0 emptyWorld) =
     Return (Some \<lparr>Phase = Unknown\<rparr>,
       Some (Wrap (Err ''state file does not exist'') ''no state provided, attempted to load from file''))"
proof -
  have h: "cfg0 ''project'' = Some (VString ''p1'')" "cfg0 ''cluster_name'' = Some (VString ''c1'')"
    "fst (stateFromFile (DataDir (ops (operator False True))) ''p1'' ''c1'' Gardener emptyWorld) =
       Inl (Err ''state file does not exist'')"
    by (simp_all add: eval_defs)
  from h(3) Status_load_fails [OF h, of okEnv] show ?thesis by simp
qed

text \<open>
  C9. \<^verbatim>\<open>Status\<close> leaves the file system and \<^verbatim>\<open>os.Stderr\<close> as they were: no workspace
  directory is created or removed and no state file is written. The only call it makes is
  \<^verbatim>\<open>stateFromFile\<close>, at most once, on the unchanged file system, and none when an artifact
  is supplied; no verb of the engine is called.
\<close>

theorem Status_reads_only:
  "fs (snd (Status env t sf p cfg w)) = fs w
   \<and> Stderr (snd (Status env t sf p cfg w)) = Stderr w
   \<and> trace (snd (Status env t sf p cfg w)) = trace w @ logSince w (snd (Status env t sf p cfg w))
   \<and> length (logSince w (snd (Status env t sf p cfg w))) \<le> 1
   \<and> (\<forall>ev \<in> set (logSince w (snd (Status env t sf p cfg w))). step ev = StateFromFile \<and> fsAt ev = fs w)
   \<and> (sf \<noteq> None \<longrightarrow> logSince w (snd (Status env t sf p cfg w)) = [])"
  by (simp add: Status_def Let_def split_beta logSince_def split: option.split sum.split)

theorem Status_reads_only_witness:
  "fs (snd (Status okEnv (operator False False) None Gardener cfg0 usedWorld)) = fs usedWorld
   \<and> steps (logSince usedWorld (snd (Status okEnv (operator False False) None Gardener cfg0 usedWorld))) =
       [StateFromFile]
   \<and> fsAt (last (logSince usedWorld (snd (Status okEnv (operator False False) None Gardener cfg0 usedWorld)))) =
       fs usedWorld
   \<and> logSince usedWorld (snd (Status okEnv (operator False False) (Some state1) Gardener cfg0 usedWorld)) = []"
proof -
  let ?L = "logSince usedWorld (snd (Status okEnv (operator False False) None Gardener cfg0 usedWorld))"
  have s: "steps ?L = [StateFromFile]" by (simp add: eval_defs)
  have ev: "last ?L \<in> set ?L" by (simp add: eval_defs)
  have n: "Some state1 \<noteq> None" by simp
  note T = Status_reads_only [of okEnv "operator False False" None Gardener cfg0 usedWorld]
  note a = T [THEN conjunct1]
  note b = T [THEN conjunct2, THEN conjunct2, THEN conjunct2, THEN conjunct2, THEN conjunct1,
      rule_format, OF ev, THEN conjunct2]
  note c = Status_reads_only [of okEnv "operator False False" "Some state1" Gardener cfg0 usedWorld,
      THEN conjunct2, THEN conjunct2, THEN conjunct2, THEN conjunct2, THEN conjunct2, rule_format, OF n]
  from a b c s show ?thesis by simp
qed

end
